theory Spec2Isabelle
  imports Complex_Main "HOL-Library.AList"
begin

section \<open>Configuration constants of main.py\<close>

text \<open>
  Python floats are modelled as exact reals: every float constant of the program is a short
  decimal (0.8, 0.95, 1.2, 0.9, ...), written here as the fraction it denotes.
\<close>

definition WIDTH :: int where "WIDTH = 960"
definition HEIGHT :: int where "HEIGHT = 640"
definition FPS :: int where "FPS = 60"
definition TILE :: int where "TILE = 48"
definition GRAVITY :: real where "GRAVITY = 8 / 10"
definition PLAYER_SPEED :: real where "PLAYER_SPEED = 6"
definition PLAYER_JUMP_POWER :: real where "PLAYER_JUMP_POWER = - 15"
definition DOUBLE_JUMP_MULT :: real where "DOUBLE_JUMP_MULT = 95 / 100"
definition COYOTE_TIME :: int where "COYOTE_TIME = 8"
definition JUMP_BUFFER :: int where "JUMP_BUFFER = 8"
definition MAX_LEVEL :: int where "MAX_LEVEL = 6"

text \<open>Python's built-in \<open>round\<close> on a float: to the nearest integer, ties to the even one.\<close>

definition py_round :: "real \<Rightarrow> int" where
  "py_round v = (let f = \<lfloor>v\<rfloor>; d = v - of_int f in
     if d < 1 / 2 then f else if 1 / 2 < d then f + 1 else if even f then f else f + 1)"

section \<open>pygame.Rect\<close>

record rect =
  left :: int
  top :: int
  width :: int
  height :: int

definition Rect :: "int \<Rightarrow> int \<Rightarrow> int \<Rightarrow> int \<Rightarrow> rect" where
  "Rect x y w h = \<lparr>left = x, top = y, width = w, height = h\<rparr>"

definition right :: "rect \<Rightarrow> int" where "right r = left r + width r"
definition bottom :: "rect \<Rightarrow> int" where "bottom r = top r + height r"
definition centerx :: "rect \<Rightarrow> int" where "centerx r = left r + width r div 2"
definition centery :: "rect \<Rightarrow> int" where "centery r = top r + height r div 2"

definition set_left :: "int \<Rightarrow> rect \<Rightarrow> rect" where "set_left v r = r\<lparr>left := v\<rparr>"
definition set_top :: "int \<Rightarrow> rect \<Rightarrow> rect" where "set_top v r = r\<lparr>top := v\<rparr>"
definition set_right :: "int \<Rightarrow> rect \<Rightarrow> rect" where "set_right v r = r\<lparr>left := v - width r\<rparr>"
definition set_bottom :: "int \<Rightarrow> rect \<Rightarrow> rect" where "set_bottom v r = r\<lparr>top := v - height r\<rparr>"

definition set_midbottom :: "int \<times> int \<Rightarrow> rect \<Rightarrow> rect" where
  "set_midbottom pt r = r\<lparr>left := fst pt - width r div 2, top := snd pt - height r\<rparr>"

definition set_center :: "int \<times> int \<Rightarrow> rect \<Rightarrow> rect" where
  "set_center pt r = r\<lparr>left := fst pt - width r div 2, top := snd pt - height r div 2\<rparr>"

definition set_topleft :: "int \<times> int \<Rightarrow> rect \<Rightarrow> rect" where
  "set_topleft pt r = r\<lparr>left := fst pt, top := snd pt\<rparr>"

definition move :: "int \<Rightarrow> int \<Rightarrow> rect \<Rightarrow> rect" where
  "move dx dy r = r\<lparr>left := left r + dx, top := top r + dy\<rparr>"

text \<open>
  \<open>Rect.colliderect\<close>: two rectangles collide when they overlap in a region of positive
  area; touching edges do not collide and a rectangle of zero width or height collides with
  nothing.
\<close>

definition colliderect :: "rect \<Rightarrow> rect \<Rightarrow> bool" where
  "colliderect a b \<longleftrightarrow>
     width a \<noteq> 0 \<and> height a \<noteq> 0 \<and> width b \<noteq> 0 \<and> height b \<noteq> 0 \<and>
     min (left a) (left a + width a) < max (left b) (left b + width b) \<and>
     min (top a) (top a + height a) < max (top b) (top b + height b) \<and>
     max (left a) (left a + width a) > min (left b) (left b + width b) \<and>
     max (top a) (top a + height a) > min (top b) (top b + height b)"

section \<open>Sprites\<close>

text \<open>
  Every sprite class carries a \<open>rect\<close>. A \<open>pygame.sprite.Group\<close> iterates in insertion
  order, so a group is a list. \<open>Player\<close> and \<open>Enemy\<close> both have a \<open>speed\<close> field, kept in the
  common record \<open>actor\<close>. The fields of \<open>Bullet\<close> are prefixed with \<open>b\<close> where the name is
  taken already. The \<open>image\<close> fields and the particle group are only drawn, never read by
  the simulation, and are left out.
\<close>

record sprite =
  rect :: rect

record actor = sprite +
  speed :: real

record player = actor +
  vel :: "real \<times> real"
  jump_power :: real
  on_ground :: bool
  double_jump :: bool
  dash_cooldown :: int
  facing :: int
  lives :: int
  score :: int
  coyote_timer :: int
  jump_buffer :: int

record bullet = sprite +
  bvel :: "real \<times> real"
  owner :: string

definition Platform :: "int \<Rightarrow> int \<Rightarrow> int \<Rightarrow> int \<Rightarrow> sprite" where
  "Platform x y w h = \<lparr>rect = Rect x y w h\<rparr>"

definition Player :: "int \<Rightarrow> int \<Rightarrow> player" where
  "Player x y = \<lparr>rect = set_midbottom (x, y) (Rect 0 0 34 46), speed = PLAYER_SPEED,
     vel = (0, 0), jump_power = PLAYER_JUMP_POWER, on_ground = False, double_jump = True,
     dash_cooldown = 0, facing = 1, lives = 3, score = 0, coyote_timer = 0, jump_buffer = 0\<rparr>"

text \<open>
  The functions of Python's \<open>math\<close> module that aim a bullet, as the real functions they
  approximate. They are specified, not computed: their defining equations are kept out of
  the evaluator.
\<close>

definition math_atan2 :: "real \<Rightarrow> real \<Rightarrow> real" where
  "math_atan2 y x =
     (if 0 < x then arctan (y / x)
      else if x < 0 \<and> 0 \<le> y then arctan (y / x) + pi
      else if x < 0 then arctan (y / x) - pi
      else if 0 < y then pi / 2 else if y < 0 then - (pi / 2) else 0)"

definition math_cos :: "real \<Rightarrow> real" where "math_cos a = cos a"

definition math_sin :: "real \<Rightarrow> real" where "math_sin a = sin a"

declare math_atan2_def [code del] math_cos_def [code del] math_sin_def [code del]

text \<open>\<open>Bullet.__init__\<close>: the velocity has the given speed in the direction of the angle.\<close>

definition Bullet :: "int \<times> int \<Rightarrow> real \<Rightarrow> real \<Rightarrow> string \<Rightarrow> bullet" where
  "Bullet pos angle spd own =
     \<lparr>rect = set_center pos (Rect 0 0 8 8),
      bvel = (math_cos angle * spd, math_sin angle * spd), owner = own\<rparr>"

text \<open>\<open>pygame.sprite.spritecollide(s, group, False)\<close> and \<open>spritecollideany\<close>.\<close>

definition spritecollide :: "'a sprite_scheme \<Rightarrow> 'b sprite_scheme list \<Rightarrow> 'b sprite_scheme list" where
  "spritecollide s sprites = filter (\<lambda>g. colliderect (rect s) (rect g)) sprites"

definition spritecollideany :: "'a sprite_scheme \<Rightarrow> 'b sprite_scheme list \<Rightarrow> 'b sprite_scheme option" where
  "spritecollideany s sprites = find (\<lambda>g. colliderect (rect s) (rect g)) sprites"

section \<open>Player\<close>

datatype key = K_SPACE | K_w | K_UP | K_p | K_r | K_other

datatype event = QUIT | KEYDOWN key | OTHER

text \<open>The state of the input devices read during one frame.\<close>

record pressed =
  K_a :: bool
  K_LEFT :: bool
  K_d :: bool
  K_RIGHT :: bool
  K_LSHIFT :: bool
  mouse_button :: bool
  mouse_pos :: "int \<times> int"

fun handle_events :: "event list \<Rightarrow> player \<Rightarrow> player" where
  "handle_events [] p = p"
| "handle_events (e # es) p =
     handle_events es
       (case e of
          KEYDOWN k \<Rightarrow> if k = K_SPACE \<or> k = K_w \<or> k = K_UP then p\<lparr>jump_buffer := JUMP_BUFFER\<rparr> else p
        | _ \<Rightarrow> p)"

text \<open>One iteration of the loop of \<open>Player.collide\<close> over the hit platforms.\<close>

definition collide_hit :: "string \<Rightarrow> player \<Rightarrow> sprite \<Rightarrow> player" where
  "collide_hit dir p0 h =
     (let p1 =
        (if dir = ''x'' then
           (if 0 < fst (vel p0) then p0\<lparr>rect := set_right (left (rect h)) (rect p0)\<rparr>
            else if fst (vel p0) < 0 then p0\<lparr>rect := set_left (right (rect h)) (rect p0)\<rparr>
            else p0)\<lparr>vel := (0, snd (vel p0))\<rparr>
         else p0)
      in
        if dir = ''y'' then
          (if 0 < snd (vel p1) then
             p1\<lparr>rect := set_bottom (top (rect h)) (rect p1), on_ground := True,
                vel := (fst (vel p1), 0)\<rparr>
           else if snd (vel p1) < 0 then
             p1\<lparr>rect := set_top (bottom (rect h)) (rect p1), vel := (fst (vel p1), 0)\<rparr>
           else p1)
        else p1)"

definition collide :: "sprite list \<Rightarrow> string \<Rightarrow> player \<Rightarrow> player" where
  "collide platforms dir p = foldl (collide_hit dir) p (spritecollide p platforms)"

text \<open>The stages of \<open>Player.update\<close>, in the order of the source.\<close>

definition read_keys :: "pressed \<Rightarrow> player \<Rightarrow> player" where
  "read_keys ks p0 =
     (let p1 = p0\<lparr>vel := (0, snd (vel p0))\<rparr>;
          p2 = (if K_a ks \<or> K_LEFT ks then p1\<lparr>vel := (- speed p1, snd (vel p1)), facing := - 1\<rparr> else p1);
          p3 = (if K_d ks \<or> K_RIGHT ks then p2\<lparr>vel := (speed p2, snd (vel p2)), facing := 1\<rparr> else p2)
      in p3)"

definition dash :: "pressed \<Rightarrow> player \<Rightarrow> player" where
  "dash ks p0 =
     (let p1 = (if K_LSHIFT ks \<and> dash_cooldown p0 \<le> 0
                then p0\<lparr>vel := (18 * of_int (facing p0), snd (vel p0)), dash_cooldown := 45\<rparr>
                else p0)
      in if 0 < dash_cooldown p1 then p1\<lparr>dash_cooldown := dash_cooldown p1 - 1\<rparr> else p1)"

definition jump :: "bool \<Rightarrow> player \<Rightarrow> player" where
  "jump prev_on_ground p0 =
     (let p1 =
        (if 0 < jump_buffer p0 then
           (if prev_on_ground \<or> 0 < coyote_timer p0 then
              p0\<lparr>vel := (fst (vel p0), jump_power p0), on_ground := False, double_jump := True,
                 jump_buffer := 0\<rparr>
            else if double_jump p0 then
              p0\<lparr>vel := (fst (vel p0), jump_power p0 * DOUBLE_JUMP_MULT), double_jump := False,
                 jump_buffer := 0\<rparr>
            else p0)
         else p0)
      in if 0 < jump_buffer p1 then p1\<lparr>jump_buffer := jump_buffer p1 - 1\<rparr> else p1)"

definition add_gravity :: "player \<Rightarrow> player" where
  "add_gravity p = p\<lparr>vel := (fst (vel p), snd (vel p) + GRAVITY)\<rparr>"

definition move_x :: "player \<Rightarrow> player" where
  "move_x p = p\<lparr>rect := move (py_round (fst (vel p))) 0 (rect p)\<rparr>"

definition move_y :: "player \<Rightarrow> player" where
  "move_y p = p\<lparr>rect := move 0 (py_round (snd (vel p))) (rect p)\<rparr>"

definition physics :: "sprite list \<Rightarrow> player \<Rightarrow> player" where
  "physics platforms p0 =
     (let p1 = add_gravity p0;
          p2 = move_x p1;
          p3 = collide platforms ''x'' p2;
          p4 = move_y p3;
          p5 = collide platforms ''y'' p4
      in p5)"

definition ground_timers :: "player \<Rightarrow> player" where
  "ground_timers p =
     (if on_ground p then p\<lparr>coyote_timer := COYOTE_TIME, double_jump := True\<rparr>
      else if 0 < coyote_timer p then p\<lparr>coyote_timer := coyote_timer p - 1\<rparr> else p)"

definition shooting :: "pressed \<Rightarrow> rect \<Rightarrow> player \<Rightarrow> bullet list \<Rightarrow> bullet list" where
  "shooting ks camera_rect p bullets_group =
     (if mouse_button ks then
        (let mx = fst (mouse_pos ks); my = snd (mouse_pos ks);
             bx = centerx (rect p); by = centery (rect p);
             dx = mx + left camera_rect - bx;
             dy = my + top camera_rect - by
         in if length bullets_group < 6
            then bullets_group @ [Bullet (bx, by) (math_atan2 (of_int dy) (of_int dx)) 12 ''player'']
            else bullets_group)
      else bullets_group)"

text \<open>
  \<open>Player.update\<close>: the result is the player, the player's bullet group and whether the
  call returned \<open>'died'\<close>. The globals \<open>camera\<close> and \<open>LEVEL_HEIGHT\<close> it reads are arguments.
\<close>

definition update :: "pressed \<Rightarrow> rect \<Rightarrow> int \<Rightarrow> sprite list \<Rightarrow> bullet list \<Rightarrow> player
    \<Rightarrow> player \<times> bullet list \<times> bool" where
  "update ks camera_rect level_height platforms bullets_group p0 =
     (let prev_on_ground = on_ground p0;
          p1 = p0\<lparr>on_ground := False\<rparr>;
          p2 = read_keys ks p1;
          p3 = dash ks p2;
          p4 = jump prev_on_ground p3;
          p5 = physics platforms p4;
          p6 = ground_timers p5;
          bs = shooting ks camera_rect p6 bullets_group
      in if level_height + 200 < top (rect p6)
         then (p6\<lparr>lives := lives p6 - 1\<rparr>, bs, True)
         else (p6, bs, False))"

definition respawn :: "int \<times> int \<Rightarrow> player \<Rightarrow> player" where
  "respawn point p = p\<lparr>rect := set_midbottom (fst point, snd point) (rect p), vel := (0, 0)\<rparr>"

section \<open>Enemies\<close>

record enemy = actor +
  etype :: string
  dir :: int
  aggro :: bool
  shoot_timer :: int
  vel_y :: real

text \<open>
  The program draws from Python's global random generator. The values drawn while one enemy
  is built are read from a record that the caller supplies: the model is the program for
  every outcome of the generator.
\<close>

record draws =
  draw_etype :: nat
  draw_speed :: real
  draw_dir :: nat
  draw_shoot_timer :: nat
  draw_x :: nat
  draw_y :: nat

text \<open>
  \<open>random.choice\<close>: some element of the (non-empty) sequence; \<open>random.randint(a, b)\<close>: some
  integer from \<open>a\<close> to \<open>b\<close>; \<open>random.uniform(a, b)\<close>: \<open>a + (b - a) * random()\<close>. The first
  argument is the raw draw.
\<close>

definition choice :: "nat \<Rightarrow> 'a list \<Rightarrow> 'a" where
  "choice k xs = xs ! (k mod length xs)"

definition randint :: "nat \<Rightarrow> int \<Rightarrow> int \<Rightarrow> int" where
  "randint k a b = a + int k mod (b - a + 1)"

definition uniform :: "real \<Rightarrow> real \<Rightarrow> real \<Rightarrow> real" where
  "uniform u a b = a + (b - a) * u"

definition Enemy :: "int \<Rightarrow> int \<Rightarrow> string \<Rightarrow> real \<Rightarrow> draws \<Rightarrow> enemy" where
  "Enemy x y ty spd d =
     \<lparr>rect = set_midbottom (x, y) (Rect 0 0 36 40), speed = spd, etype = ty,
      dir = choice (draw_dir d) [- 1, 1], aggro = False,
      shoot_timer = randint (draw_shoot_timer d) 30 120,
      vel_y = 0\<rparr>"

text \<open>
  The patrol and chase branch of \<open>Enemy.update\<close> (types \<open>'patrol'\<close> and \<open>'chaser'\<close>). Its two
  probes, the local variables \<open>ground_hit\<close> and \<open>wall_hit\<close>, are definitions of their own.
\<close>

definition ground_hit :: "sprite list \<Rightarrow> enemy \<Rightarrow> bool" where
  "ground_hit platforms e =
     (let feet_x = centerx (rect e) + dir e * (width (rect e) div 2 + 6);
          ahead_rect = Rect (feet_x - 4) (bottom (rect e)) 8 8
      in list_ex (\<lambda>p. colliderect (rect p) ahead_rect) platforms)"

definition wall_hit :: "sprite list \<Rightarrow> enemy \<Rightarrow> bool" where
  "wall_hit platforms e =
     (let proposed_rect = move (py_round (speed e * of_int (dir e))) 0 (rect e)
      in list_ex (\<lambda>p. colliderect (rect p) proposed_rect) platforms)"

definition walk :: "sprite list \<Rightarrow> player \<Rightarrow> enemy \<Rightarrow> enemy" where
  "walk platforms pl e =
     (if \<not> ground_hit platforms e \<or> wall_hit platforms e then e\<lparr>dir := dir e * - 1\<rparr>
      else if etype e = ''patrol'' then
        e\<lparr>rect := move (py_round (speed e * of_int (dir e))) 0 (rect e)\<rparr>
      else if etype e = ''chaser'' then
        (let e1 = (if \<bar>centerx (rect pl) - centerx (rect e)\<bar> < 400 then e\<lparr>aggro := True\<rparr> else e)
         in if aggro e1 then
              (if centerx (rect pl) < centerx (rect e1)
               then e1\<lparr>rect := move (- py_round (speed e1)) 0 (rect e1), dir := - 1\<rparr>
               else e1\<lparr>rect := move (py_round (speed e1)) 0 (rect e1), dir := 1\<rparr>)
            else e1)
      else e)"

text \<open>
  The \<open>'shooter'\<close> branch; \<open>k\<close> is the raw draw of \<open>random.randint(40, 120)\<close>, should it be
  called.
\<close>

definition shoot :: "nat \<Rightarrow> player \<Rightarrow> bullet list \<Rightarrow> enemy \<Rightarrow> enemy \<times> bullet list" where
  "shoot k pl bullets_group e0 =
     (let e1 = e0\<lparr>shoot_timer := shoot_timer e0 - 1\<rparr>
      in if shoot_timer e1 \<le> 0 then
           (let dx = centerx (rect pl) - centerx (rect e1);
                dy = centery (rect pl) - centery (rect e1);
                angle = math_atan2 (of_int dy) (of_int dx)
            in (e1\<lparr>shoot_timer := randint k 40 120\<rparr>,
                bullets_group @ [Bullet (centerx (rect e1), centery (rect e1)) angle 6 ''enemy'']))
         else (e1, bullets_group))"

definition land_hit :: "enemy \<Rightarrow> sprite \<Rightarrow> enemy" where
  "land_hit e p =
     (if 0 < vel_y e \<and> top (rect p) < bottom (rect e)
      then e\<lparr>rect := set_bottom (top (rect p)) (rect e), vel_y := 0\<rparr> else e)"

definition fall :: "sprite list \<Rightarrow> enemy \<Rightarrow> enemy" where
  "fall platforms e0 =
     (let e1 = e0\<lparr>vel_y := vel_y e0 + GRAVITY\<rparr>;
          e2 = e1\<lparr>rect := move 0 (py_round (vel_y e1)) (rect e1)\<rparr>
      in foldl land_hit e2 (spritecollide e2 platforms))"

definition enemy_update :: "nat \<Rightarrow> sprite list \<Rightarrow> player \<Rightarrow> bullet list \<Rightarrow> enemy
    \<Rightarrow> enemy \<times> bullet list" where
  "enemy_update k platforms pl bullets_group e =
     (let (e1, bs) =
        (if etype e = ''patrol'' \<or> etype e = ''chaser'' then (walk platforms pl e, bullets_group)
         else if etype e = ''shooter'' then shoot k pl bullets_group e
         else (e, bullets_group))
      in (fall platforms e1, bs))"

text \<open>\<open>Bullet.update\<close>: \<open>None\<close> when the bullet kills itself outside the level.\<close>

definition bullet_update :: "int \<Rightarrow> int \<Rightarrow> bullet \<Rightarrow> bullet option" where
  "bullet_update level_width level_height b0 =
     (let b1 = b0\<lparr>rect := move (py_round (fst (bvel b0))) 0 (rect b0)\<rparr>;
          b2 = b1\<lparr>rect := move 0 (py_round (snd (bvel b1))) (rect b1)\<rparr>
      in if right (rect b2) < 0 \<or> level_width < left (rect b2) \<or> level_height < top (rect b2)
            \<or> bottom (rect b2) < 0
         then None else Some b2)"

section \<open>Checkpoints and the level builder\<close>

record checkpoint = sprite +
  activated :: bool
  cp_respawn_point :: "int \<times> int"

definition Checkpoint :: "sprite \<Rightarrow> checkpoint" where
  "Checkpoint platform =
     (let r = set_midbottom (centerx (rect platform), top (rect platform)) (Rect 0 0 20 28)
      in \<lparr>rect = r, activated = False, cp_respawn_point = (centerx r, top r)\<rparr>)"

definition activate :: "checkpoint \<Rightarrow> checkpoint" where
  "activate cp = cp\<lparr>activated := True\<rparr>"

text \<open>
  Python's \<open>max(xs, key=f)\<close> on a non-empty sequence: the first element whose key no other
  element exceeds. The key of the builder is the pair \<open>(left, -top)\<close>, compared as tuples.
\<close>

definition key_less :: "int \<times> int \<Rightarrow> int \<times> int \<Rightarrow> bool" where
  "key_less a b \<longleftrightarrow> fst a < fst b \<or> (fst a = fst b \<and> snd a < snd b)"

fun max_key :: "('a \<Rightarrow> int \<times> int) \<Rightarrow> 'a \<Rightarrow> 'a list \<Rightarrow> 'a" where
  "max_key f best [] = best"
| "max_key f best (x # xs) = max_key f (if key_less (f best) (f x) then x else best) xs"

record level_build =
  b_platforms :: "sprite list"
  b_enemies :: "enemy list"
  b_collectibles :: "sprite list"
  b_player_spawn :: "int \<times> int"

definition place :: "(nat \<Rightarrow> draws) \<Rightarrow> level_build \<Rightarrow> nat \<times> nat \<times> char \<Rightarrow> level_build" where
  "place rnd b cell =
     (let r = fst cell; c = fst (snd cell); ch = snd (snd cell);
          x = int c * TILE; y = int r * TILE
      in
        if ch = CHR ''#'' then b\<lparr>b_platforms := b_platforms b @ [Platform x y TILE TILE]\<rparr>
        else if ch = CHR ''P'' then b\<lparr>b_player_spawn := (x + TILE div 2, y + TILE)\<rparr>
        else if ch = CHR ''E'' then
          (let d = rnd (length (b_enemies b));
               ty = choice (draw_etype d) [''patrol'', ''chaser'', ''shooter'']
           in b\<lparr>b_enemies := b_enemies b @
                  [Enemy (x + TILE div 2) (y + TILE) ty (uniform (draw_speed d) (8 / 10) (16 / 10)) d]\<rparr>)
        else if ch = CHR ''C'' then
          b\<lparr>b_collectibles := b_collectibles b @
               [\<lparr>rect = set_center (x + TILE div 2, y + TILE div 2) (Rect 0 0 20 20)\<rparr>]\<rparr>
        else b)"

definition cells :: "string list \<Rightarrow> (nat \<times> nat \<times> char) list" where
  "cells template =
     concat (map (\<lambda>(r, row). map (\<lambda>(c, ch). (r, c, ch)) (enumerate 0 row)) (enumerate 0 template))"

datatype error = IndexError

text \<open>
  \<open>build_level_from_template\<close>: the tuple of platforms, enemies, collectibles, player spawn,
  checkpoints, level width and level height. \<open>template[0]\<close> raises on an empty template.
\<close>

definition build_level_from_template :: "string list \<Rightarrow> (nat \<Rightarrow> draws)
    \<Rightarrow> error + (sprite list \<times> enemy list \<times> sprite list \<times> (int \<times> int) \<times> checkpoint list \<times> int \<times> int)" where
  "build_level_from_template template rnd =
     (case template of
        [] \<Rightarrow> Inl IndexError
      | row0 # _ \<Rightarrow>
          (let rows = int (length template);
               cols = int (length row0);
               level_w = cols * TILE;
               level_h = rows * TILE;
               b = foldl (place rnd)
                     \<lparr>b_platforms = [], b_enemies = [], b_collectibles = [],
                      b_player_spawn = (TILE * 2, TILE * 6)\<rparr> (cells template);
               checkpoints =
                 (case b_platforms b of
                    [] \<Rightarrow> []
                  | p # ps \<Rightarrow>
                      [Checkpoint (max_key (\<lambda>p. (left (rect p), - top (rect p))) p ps)])
           in Inr (b_platforms b, b_enemies b, b_collectibles b, b_player_spawn b, checkpoints,
                   level_w, level_h)))"

definition LEVEL_TEMPLATE_0 :: "string list" where
  "LEVEL_TEMPLATE_0 =
    [''..................................................'',
     ''..................................................'',
     ''..................................................'',
     ''....................C.............................'',
     ''..........#####..........#####....................'',
     ''..................................................'',
     ''......P...........................................'',
     ''##########......#####.............######..........'',
     ''..................................................'',
     ''..................................................'']"

definition LEVEL_TEMPLATE_1 :: "string list" where
  "LEVEL_TEMPLATE_1 =
    [''..................................................'',
     ''....................C.............................'',
     ''...............#####.............#####............'',
     ''..................................................'',
     ''......P.....E......#####.....E....................'',
     ''....##########....................###########....'',
     ''..................................................'',
     ''..................#####......................E...'',
     ''..................................................'',
     ''..................................................'']"

definition LEVEL_TEMPLATE_2 :: "string list" where
  "LEVEL_TEMPLATE_2 =
    [''..................................................'',
     ''....................................C.............'',
     ''..........#####..............####...............E'',
     ''..................................................'',
     ''........P...........#####.........................'',
     ''....##########....................######..........'',
     ''.............................E....................'',
     ''....................#####.........................'',
     ''..................................................'',
     ''..................................................'']"

definition LEVEL_TEMPLATES :: "string list list" where
  "LEVEL_TEMPLATES = [LEVEL_TEMPLATE_0, LEVEL_TEMPLATE_1, LEVEL_TEMPLATE_2]"

section \<open>Level manager\<close>

record settings =
  enemy_count :: int
  enemy_speed :: real

definition DIFFICULTY :: "(int \<times> settings) list" where
  "DIFFICULTY =
     [(1, \<lparr>enemy_count = 4, enemy_speed = 1\<rparr>),
      (2, \<lparr>enemy_count = 6, enemy_speed = 12 / 10\<rparr>),
      (3, \<lparr>enemy_count = 8, enemy_speed = 15 / 10\<rparr>),
      (4, \<lparr>enemy_count = 10, enemy_speed = 19 / 10\<rparr>),
      (5, \<lparr>enemy_count = 12, enemy_speed = 23 / 10\<rparr>)]"

record level_data =
  ld_platforms :: "sprite list"
  ld_enemies :: "enemy list"
  ld_collectibles :: "sprite list"
  ld_spawn :: "int \<times> int"
  ld_checkpoints :: "checkpoint list"
  ld_width :: int
  ld_height :: int
  ld_settings :: settings

text \<open>The loop that spawns \<open>k\<close> extra enemies at random tiles.\<close>

fun extra_enemies :: "nat \<Rightarrow> (nat \<Rightarrow> draws) \<Rightarrow> int \<Rightarrow> int \<Rightarrow> settings \<Rightarrow> enemy list \<Rightarrow> enemy list" where
  "extra_enemies 0 rnd lw lh st es = es"
| "extra_enemies (Suc k) rnd lw lh st es =
     (let d = rnd (length es);
          x = randint (draw_x d) 2 (max 3 (lw div TILE - 3)) * TILE;
          y = randint (draw_y d) 1 (max 2 (lh div TILE - 2)) * TILE
      in extra_enemies k rnd lw lh st
           (es @ [Enemy x y (choice (draw_etype d) [''patrol'', ''chaser'']) (enemy_speed st) d]))"

definition get_settings :: "int \<Rightarrow> settings" where
  "get_settings n =
     (let top_key = Max (set (map fst DIFFICULTY))
      in case map_of DIFFICULTY (min n top_key) of
           Some st \<Rightarrow> st
         | None \<Rightarrow> the (map_of DIFFICULTY top_key))"

definition load_level :: "int \<Rightarrow> (nat \<Rightarrow> draws) \<Rightarrow> error + level_data" where
  "load_level n rnd =
     (let template = LEVEL_TEMPLATES ! nat ((n - 1) mod int (length LEVEL_TEMPLATES))
      in case build_level_from_template template rnd of
           Inl err \<Rightarrow> Inl err
         | Inr (platforms, enemies, collectibles, spawn, checkpoints, lw, lh) \<Rightarrow>
             (let st = get_settings n
              in Inr \<lparr>ld_platforms = platforms,
                      ld_enemies = extra_enemies (nat (enemy_count st - int (length enemies))) rnd lw lh st enemies,
                      ld_collectibles = collectibles, ld_spawn = spawn,
                      ld_checkpoints = checkpoints, ld_width = lw, ld_height = lh,
                      ld_settings = st\<rparr>))"


section \<open>Camera\<close>

record camera = sprite +
  cam_width :: int
  cam_height :: int

definition Camera :: "int \<Rightarrow> int \<Rightarrow> camera" where
  "Camera w h = \<lparr>rect = Rect 0 0 w h, cam_width = w, cam_height = h\<rparr>"

definition update_camera :: "player \<Rightarrow> camera \<Rightarrow> camera" where
  "update_camera target cam =
     (let x0 = centerx (rect target) - WIDTH div 2;
          y0 = centery (rect target) - HEIGHT div 2;
          x1 = max 0 (min x0 (cam_width cam - WIDTH));
          y1 = max 0 (min y0 (cam_height cam - HEIGHT))
      in cam\<lparr>rect := set_topleft (x1, y1) (rect cam)\<rparr>)"

section \<open>The save file\<close>

text \<open>
  The content of \<open>save_data.json\<close> is a dictionary, \<open>None\<close> when the file is missing or does
  not parse. \<open>save_json\<close> swallows every exception: \<open>ok\<close> tells whether the write succeeds.
\<close>

type_synonym json = "(string \<times> int) list"

definition load_json :: "json option \<Rightarrow> json \<Rightarrow> json" where
  "load_json file dflt = (case file of None \<Rightarrow> dflt | Some data \<Rightarrow> data)"

definition save_json :: "bool \<Rightarrow> json \<Rightarrow> json option \<Rightarrow> json option" where
  "save_json ok data file = (if ok then Some data else file)"

definition dict_get :: "json \<Rightarrow> string \<Rightarrow> int \<Rightarrow> int" where
  "dict_get d k dflt = (case map_of d k of None \<Rightarrow> dflt | Some v \<Rightarrow> v)"

section \<open>The game loop\<close>

text \<open>
  The local variables of \<open>run_game\<close> and the globals it assigns. The integer conversion
  \<open>int(x)\<close> truncates towards zero.
\<close>

definition py_int :: "real \<Rightarrow> int" where
  "py_int v = (if 0 \<le> v then \<lfloor>v\<rfloor> else \<lceil>v\<rceil>)"

record game =
  save :: json
  highscore :: int
  LEVEL_WIDTH :: int
  LEVEL_HEIGHT :: int
  camera :: camera
  platforms :: "sprite list"
  enemies :: "enemy list"
  collectibles :: "sprite list"
  checkpoints :: "checkpoint list"
  player_spawn :: "int \<times> int"
  player :: player
  bullets :: "bullet list"
  enemy_bullets :: "bullet list"
  level_num :: int
  paused :: bool
  game_over :: bool
  win :: bool
  level_clear_cool :: int
  level_transition_timer :: int
  respawn_point :: "int \<times> int"

text \<open>What one frame reads from outside: the event queue, the devices, the random draws.\<close>

record frame_input =
  events :: "event list"
  devices :: pressed
  shooter_draws :: "nat \<Rightarrow> nat"
  level_draws :: "nat \<Rightarrow> draws"
  disk_ok :: bool

datatype result = Exit | Restart | Crash error | Continue game

text \<open>The set-up of \<open>run_game\<close> before its loop.\<close>

definition start :: "json option \<Rightarrow> (nat \<Rightarrow> draws) \<Rightarrow> error + game" where
  "start file rnd =
     (let sv = load_json file [(''highscore'', 0)]
      in case load_level 1 rnd of
           Inl err \<Rightarrow> Inl err
         | Inr ld \<Rightarrow>
             Inr \<lparr>save = sv, highscore = dict_get sv ''highscore'' 0,
                  LEVEL_WIDTH = ld_width ld, LEVEL_HEIGHT = ld_height ld,
                  camera = Camera (ld_width ld) (ld_height ld),
                  platforms = ld_platforms ld, enemies = ld_enemies ld,
                  collectibles = ld_collectibles ld, checkpoints = ld_checkpoints ld,
                  player_spawn = ld_spawn ld,
                  player = Player (fst (ld_spawn ld)) (snd (ld_spawn ld)),
                  bullets = [], enemy_bullets = [], level_num = 1, paused = False,
                  game_over = False, win = False, level_clear_cool = 0,
                  level_transition_timer = 0, respawn_point = ld_spawn ld\<rparr>)"

text \<open>The loop over the events of the frame: quitting, pausing, restarting.\<close>

fun event_loop :: "bool \<Rightarrow> event list \<Rightarrow> json option \<times> game \<Rightarrow> json option \<times> result" where
  "event_loop ok [] (file, g) = (file, Continue g)"
| "event_loop ok (ev # evs) (file, g) =
     (case ev of
        QUIT \<Rightarrow>
          (if highscore g < score (player g)
           then (save_json ok (AList.update ''highscore'' (score (player g)) (save g)) file, Exit)
           else (file, Exit))
      | KEYDOWN k \<Rightarrow>
          (let g1 = (if k = K_p \<and> \<not> game_over g \<and> \<not> win g \<and> level_transition_timer g = 0
                     then g\<lparr>paused := \<not> paused g\<rparr> else g)
           in if k = K_r then (file, Restart) else event_loop ok evs (file, g1))
      | OTHER \<Rightarrow> event_loop ok evs (file, g))"

text \<open>The branch taken while paused, over, won or in transition: only the countdown runs.\<close>

definition next_level :: "(nat \<Rightarrow> draws) \<Rightarrow> game \<Rightarrow> error + game" where
  "next_level rnd g0 =
     (let g1 = g0\<lparr>level_num := level_num g0 + 1\<rparr>
      in if MAX_LEVEL < level_num g1 then Inr (g1\<lparr>win := True\<rparr>)
         else
           (case load_level (level_num g1) rnd of
              Inl err \<Rightarrow> Inl err
            | Inr ld \<Rightarrow>
                (let g2 = g1\<lparr>LEVEL_WIDTH := ld_width ld, LEVEL_HEIGHT := ld_height ld,
                            camera := Camera (ld_width ld) (ld_height ld),
                            platforms := ld_platforms ld, enemies := ld_enemies ld,
                            collectibles := ld_collectibles ld, checkpoints := ld_checkpoints ld,
                            player_spawn := ld_spawn ld, respawn_point := ld_spawn ld\<rparr>;
                     p1 = respawn (respawn_point g2) (player g2);
                     p2 = p1\<lparr>lives := max 1 (lives p1)\<rparr>;
                     p3 = p2\<lparr>score := score p2 + 500 * level_num g2\<rparr>
                 in Inr (g2\<lparr>player := p3\<rparr>))))"

definition frozen_frame :: "(nat \<Rightarrow> draws) \<Rightarrow> game \<Rightarrow> error + game" where
  "frozen_frame rnd g0 =
     (if 0 < level_transition_timer g0 then
        (let g1 = g0\<lparr>level_transition_timer := level_transition_timer g0 - 1\<rparr>
         in if level_transition_timer g1 \<le> 0 then next_level rnd g1 else Inr g1)
      else Inr g0)"

text \<open>The stages of a playing frame, in the order of the source.\<close>

definition player_step :: "frame_input \<Rightarrow> game \<Rightarrow> game" where
  "player_step inp g0 =
     (let p0 = handle_events (events inp) (player g0);
          (p1, bs, died) = update (devices inp) (rect (camera g0)) (LEVEL_HEIGHT g0)
                             (platforms g0) (bullets g0) p0;
          g1 = g0\<lparr>player := p1, bullets := bs\<rparr>
      in if died then
           (let g2 = g1\<lparr>player := respawn (respawn_point g1) (player g1)\<rparr>
            in if lives (player g2) \<le> 0 then g2\<lparr>game_over := True\<rparr> else g2)
         else g1)"

definition group_update :: "int \<Rightarrow> int \<Rightarrow> bullet list \<Rightarrow> bullet list" where
  "group_update level_width level_height bs = List.map_filter (bullet_update level_width level_height) bs"

fun update_enemies :: "(nat \<Rightarrow> nat) \<Rightarrow> nat \<Rightarrow> sprite list \<Rightarrow> player \<Rightarrow> enemy list \<Rightarrow> bullet list
    \<Rightarrow> enemy list \<times> bullet list" where
  "update_enemies sd i pfs pl [] bs = ([], bs)"
| "update_enemies sd i pfs pl (e # es) bs =
     (let (e1, bs1) = enemy_update (sd i) pfs pl bs e;
          (es1, bs2) = update_enemies sd (Suc i) pfs pl es bs1
      in (e1 # es1, bs2))"

fun bullet_hits :: "bullet list \<Rightarrow> game \<Rightarrow> game" where
  "bullet_hits [] g = g"
| "bullet_hits (b # bs) g =
     bullet_hits bs
       (case spritecollideany b (enemies g) of
          None \<Rightarrow> g
        | Some hit \<Rightarrow>
            g\<lparr>bullets := remove1 b (bullets g), enemies := remove1 hit (enemies g),
              player := (player g)\<lparr>score := score (player g) + 100\<rparr>\<rparr>)"

fun enemy_bullet_hits :: "bullet list \<Rightarrow> game \<Rightarrow> game" where
  "enemy_bullet_hits [] g = g"
| "enemy_bullet_hits (b # bs) g =
     enemy_bullet_hits bs
       (if colliderect (rect (player g)) (rect b) then
          (let g1 = g\<lparr>enemy_bullets := remove1 b (enemy_bullets g),
                      player := (player g)\<lparr>lives := lives (player g) - 1\<rparr>\<rparr>
           in if lives (player g1) \<le> 0 then g1\<lparr>game_over := True\<rparr> else g1)
        else g)"

definition touch_enemy :: "game \<Rightarrow> game" where
  "touch_enemy g =
     (case spritecollideany (player g) (enemies g) of
        None \<Rightarrow> g
      | Some _ \<Rightarrow>
          (let p1 = (player g)\<lparr>lives := lives (player g) - 1\<rparr>;
               p2 = p1\<lparr>rect := move (- 60) 0 (rect p1)\<rparr>;
               g1 = g\<lparr>player := p2\<rparr>
           in if lives (player g1) \<le> 0 then g1\<lparr>game_over := True\<rparr> else g1))"

fun collect :: "sprite list \<Rightarrow> game \<Rightarrow> game" where
  "collect [] g = g"
| "collect (c # cs) g =
     collect cs
       (if colliderect (rect (player g)) (rect c)
        then g\<lparr>collectibles := remove1 c (collectibles g),
               player := (player g)\<lparr>score := score (player g) + 50\<rparr>\<rparr>
        else g)"

text \<open>
  The checkpoint loop. One iteration works on a checkpoint, the respawn point and the
  transition timer; the loop rebuilds the group from the visited checkpoints.
\<close>

definition touch :: "rect \<Rightarrow> checkpoint \<Rightarrow> (int \<times> int) \<times> int \<Rightarrow> checkpoint \<times> (int \<times> int) \<times> int" where
  "touch r cp st =
     (if colliderect r (rect cp) then
        (if \<not> activated cp
         then (activate cp, cp_respawn_point cp, py_int (of_int FPS * (9 / 10)))
         else (cp, st))
      else (cp, st))"

fun touch_all :: "rect \<Rightarrow> checkpoint list \<Rightarrow> (int \<times> int) \<times> int \<Rightarrow> checkpoint list \<times> (int \<times> int) \<times> int" where
  "touch_all r [] st = ([], st)"
| "touch_all r (cp # cps) st =
     (let (cp1, st1) = touch r cp st;
          (cps1, st2) = touch_all r cps st1
      in (cp1 # cps1, st2))"

definition checkpoint_step :: "game \<Rightarrow> game" where
  "checkpoint_step g =
     (let (cps, rp, t) = touch_all (rect (player g)) (checkpoints g)
                           (respawn_point g, level_transition_timer g)
      in g\<lparr>checkpoints := cps, respawn_point := rp, level_transition_timer := t\<rparr>)"

definition level_clear :: "game \<Rightarrow> game" where
  "level_clear g =
     (if length (enemies g) = 0 \<and> length (collectibles g) = 0 \<and> level_transition_timer g = 0 then
        (let g1 = g\<lparr>level_clear_cool := level_clear_cool g + 1\<rparr>
         in if of_int FPS * (12 / 10 :: real) < of_int (level_clear_cool g1)
            then g1\<lparr>level_transition_timer := py_int (of_int FPS * (9 / 10)), level_clear_cool := 0\<rparr>
            else g1)
      else if \<not> (length (enemies g) = 0 \<and> length (collectibles g) = 0)
           then g\<lparr>level_clear_cool := 0\<rparr> else g)"

text \<open>
  The update passes of a playing frame: the player, the player's bullets, the enemies in
  the order of their group, the enemies' bullets. The enemies read the platforms and the
  player, and add to the group of their bullets.
\<close>

definition update_pass :: "frame_input \<Rightarrow> game \<Rightarrow> game" where
  "update_pass inp g0 =
     (let g1 = player_step inp g0;
          bs = group_update (LEVEL_WIDTH g1) (LEVEL_HEIGHT g1) (bullets g1);
          (es, ebs) = update_enemies (shooter_draws inp) 0 (platforms g1) (player g1) (enemies g1)
                        (enemy_bullets g1)
      in g1\<lparr>bullets := bs, enemies := es,
            enemy_bullets := group_update (LEVEL_WIDTH g1) (LEVEL_HEIGHT g1) ebs\<rparr>)"

text \<open>The interactions that follow: bullets, contact, collectibles, checkpoints.\<close>

definition interactions :: "game \<Rightarrow> game" where
  "interactions g4 =
     (let g5 = bullet_hits (bullets g4) g4;
          g6 = enemy_bullet_hits (enemy_bullets g5) g5;
          g7 = touch_enemy g6;
          g8 = collect (collectibles g7) g7
      in checkpoint_step g8)"

definition simulate :: "frame_input \<Rightarrow> game \<Rightarrow> game" where
  "simulate inp g0 = interactions (update_pass inp g0)"

definition playing_frame :: "frame_input \<Rightarrow> game \<Rightarrow> game" where
  "playing_frame inp g0 =
     (let g9 = simulate inp g0;
          g10 = level_clear g9
      in g10\<lparr>camera := update_camera (player g10) (camera g10)\<rparr>)"

text \<open>One pass of the \<open>while True\<close> loop of \<open>run_game\<close>.\<close>

definition frame :: "frame_input \<Rightarrow> json option \<times> game \<Rightarrow> json option \<times> result" where
  "frame inp fg =
     (case event_loop (disk_ok inp) (events inp) fg of
        (file, Continue g) \<Rightarrow>
          (if paused g \<or> game_over g \<or> win g \<or> 0 < level_transition_timer g then
             (case frozen_frame (level_draws inp) g of
                Inl err \<Rightarrow> (file, Crash err)
              | Inr g1 \<Rightarrow> (file, Continue g1))
           else (file, Continue (playing_frame inp g)))
      | (file, res) \<Rightarrow> (file, res))"

text \<open>A session: frames run until one of them leaves the loop.\<close>

fun run_game :: "frame_input list \<Rightarrow> json option \<times> game \<Rightarrow> json option \<times> result" where
  "run_game [] fg = (fst fg, Continue (snd fg))"
| "run_game (inp # inps) fg =
     (case frame inp fg of
        (file, Continue g) \<Rightarrow> run_game inps (file, g)
      | (file, res) \<Rightarrow> (file, res))"

text \<open>The states after each frame of a run of consecutive playing frames.\<close>

fun playing_frames :: "frame_input list \<Rightarrow> game \<Rightarrow> game list" where
  "playing_frames [] g = []"
| "playing_frames (inp # inps) g = playing_frame inp g # playing_frames inps (playing_frame inp g)"

text \<open>The level is cleared: no enemy and no collectible is left.\<close>

definition cleared :: "game \<Rightarrow> bool" where
  "cleared g \<longleftrightarrow> length (enemies g) = 0 \<and> length (collectibles g) = 0"

text \<open>
  The double-jump branch of \<open>Player.update\<close> is taken in the frame: after the events of the
  frame a jump is buffered, the player was not grounded by the previous update, the coyote
  timer has run out and the charge is available.
\<close>

definition double_jump_fires :: "event list \<Rightarrow> player \<Rightarrow> bool" where
  "double_jump_fires evs p \<longleftrightarrow>
     0 < jump_buffer (handle_events evs p) \<and> \<not> on_ground p \<and> \<not> 0 < coyote_timer p \<and> double_jump p"

section \<open>Concrete scenes used below\<close>

definition c3_player :: player where
  "c3_player = (Player 83 46)\<lparr>vel := (6, 0)\<rparr>"

definition c3_platforms :: "sprite list" where
  "c3_platforms = [Platform 103 0 48 48, Platform 101 40 48 48]"

definition corner_player :: player where
  "corner_player = (Player 17 46)\<lparr>vel := (6, 4)\<rparr>"

definition corner_tile :: sprite where
  "corner_tile = Platform 36 48 48 48"

definition c3_grid_platforms :: "sprite list" where
  "c3_grid_platforms = [Platform 96 0 48 48, Platform 96 48 48 48, Platform 0 48 48 48]"

definition c3_grid_player :: player where
  "c3_grid_player = (Player 73 60)\<lparr>vel := (18, 0)\<rparr>"

definition c3_left_player :: player where
  "c3_left_player = (Player 73 60)\<lparr>vel := (- 18, 0)\<rparr>"

definition c3_free_player :: player where
  "c3_free_player = (Player 73 60)\<lparr>vel := (6, 0)\<rparr>"

definition c4_platforms :: "sprite list" where
  "c4_platforms = [Platform 0 100 48 48]"

definition c4_enemy :: enemy where
  "c4_enemy = \<lparr>rect = Rect 12 60 36 40, speed = 1, etype = ''chaser'', dir = 1, aggro = True,
     shoot_timer = 30, vel_y = 0\<rparr>"

definition c4_player :: player where
  "c4_player = Player 200 100"

definition c4_floor :: "sprite list" where
  "c4_floor = [Platform 0 100 480 48]"

definition c4_calm :: enemy where
  "c4_calm = \<lparr>rect = Rect 82 60 36 40, speed = 12 / 10, etype = ''chaser'', dir = - 1,
     aggro = False, shoot_timer = 30, vel_y = 0\<rparr>"


text \<open>
  A small level: one long platform with its checkpoint, the player standing on the platform
  at the spawn point. The scenes below vary it.
\<close>

definition scene_game :: game where
  "scene_game =
     \<lparr>save = [(''highscore'', 0)], highscore = 0, LEVEL_WIDTH = 480, LEVEL_HEIGHT = 480,
      camera = Camera 480 480, platforms = [Platform 0 96 480 48], enemies = [],
      collectibles = [], checkpoints = [Checkpoint (Platform 0 96 480 48)],
      player_spawn = (24, 96), player = (Player 24 96)\<lparr>on_ground := True\<rparr>,
      bullets = [], enemy_bullets = [],
      level_num = 1, paused = False, game_over = False, win = False, level_clear_cool = 0,
      level_transition_timer = 0, respawn_point = (24, 96)\<rparr>"

text \<open>The player stands at the checkpoint, which is at the middle of the platform.\<close>

definition c5_game :: game where
  "c5_game = scene_game\<lparr>player := (Player 240 96)\<lparr>on_ground := True\<rparr>\<rparr>"

text \<open>A frame without events, keys or mouse button; every random draw is 0.\<close>

definition idle_input :: frame_input where
  "idle_input =
     \<lparr>events = [],
      devices = \<lparr>K_a = False, K_LEFT = False, K_d = False, K_RIGHT = False, K_LSHIFT = False,
                 mouse_button = False, mouse_pos = (0, 0)\<rparr>,
      shooter_draws = (\<lambda>i. 0),
      level_draws = (\<lambda>i. \<lparr>draw_etype = 0, draw_speed = 0, draw_dir = 0, draw_shoot_timer = 0,
                            draw_x = 0, draw_y = 0\<rparr>),
      disk_ok = True\<rparr>"

section \<open>Collision resolution\<close>

lemma collide_hit_x_vel [simp]: "fst (vel (collide_hit ''x'' p h)) = 0"
  by (simp add: collide_hit_def Let_def)

lemma collide_hit_x_still: "fst (vel p) = 0 \<Longrightarrow> collide_hit ''x'' p h = p"
proof -
  assume v: "fst (vel p) = 0"
  then have "(0, snd (vel p)) = vel p" by (simp add: prod_eq_iff)
  then show ?thesis by (simp add: collide_hit_def Let_def v)
qed

lemma foldl_collide_x_still:
  "fst (vel p) = 0 \<Longrightarrow> foldl (collide_hit ''x'') p hs = p"
  by (induction hs arbitrary: p) (simp_all add: collide_hit_x_still)

text \<open>Only the first hit moves the player: it zeroes the velocity the later ones test.\<close>

lemma collide_x_first:
  "collide pfs ''x'' p =
     (case spritecollide p pfs of [] \<Rightarrow> p | h # hs \<Rightarrow> collide_hit ''x'' p h)"
  by (simp add: collide_def foldl_collide_x_still split: list.splits)

lemma collide_hit_y_vel [simp]: "snd (vel (collide_hit ''y'' p h)) = 0"
  by (simp add: collide_hit_def Let_def)

lemma collide_hit_y_still: "snd (vel p) = 0 \<Longrightarrow> collide_hit ''y'' p h = p"
  by (simp add: collide_hit_def Let_def)

lemma foldl_collide_y_still:
  "snd (vel p) = 0 \<Longrightarrow> foldl (collide_hit ''y'') p hs = p"
  by (induction hs arbitrary: p) (simp_all add: collide_hit_y_still)

lemma collide_y_first:
  "collide pfs ''y'' p =
     (case spritecollide p pfs of [] \<Rightarrow> p | h # hs \<Rightarrow> collide_hit ''y'' p h)"
  by (simp add: collide_def foldl_collide_y_still split: list.splits)

lemma collide_x_keeps:
  "top (rect (collide pfs ''x'' p)) = top (rect p)"
  "snd (vel (collide pfs ''x'' p)) = snd (vel p)"
  "on_ground (collide pfs ''x'' p) = on_ground p"
  "double_jump (collide pfs ''x'' p) = double_jump p"
  "coyote_timer (collide pfs ''x'' p) = coyote_timer p"
  "jump_buffer (collide pfs ''x'' p) = jump_buffer p"
  "lives (collide pfs ''x'' p) = lives p"
  by (simp_all add: collide_x_first collide_hit_def Let_def set_right_def set_left_def
      split: list.splits)

lemma collide_y_keeps:
  "left (rect (collide pfs ''y'' p)) = left (rect p)"
  "fst (vel (collide pfs ''y'' p)) = fst (vel p)"
  "double_jump (collide pfs ''y'' p) = double_jump p"
  "coyote_timer (collide pfs ''y'' p) = coyote_timer p"
  "jump_buffer (collide pfs ''y'' p) = jump_buffer p"
  "lives (collide pfs ''y'' p) = lives p"
  by (simp_all add: collide_y_first collide_hit_def Let_def set_bottom_def set_top_def
      split: list.splits)

lemma collide_y_on_ground:
  "on_ground (collide pfs ''y'' p) \<longleftrightarrow>
     on_ground p \<or> (0 < snd (vel p) \<and> spritecollide p pfs \<noteq> [])"
  by (auto simp: collide_y_first collide_hit_def Let_def split: list.splits)

lemma move_keeps [simp]:
  "vel (move_x p) = vel p" "vel (move_y p) = vel p"
  "on_ground (move_x p) = on_ground p" "on_ground (move_y p) = on_ground p"
  "top (rect (move_x p)) = top (rect p)" "left (rect (move_y p)) = left (rect p)"
  "left (rect (move_x p)) = left (rect p) + py_round (fst (vel p))"
  "top (rect (move_y p)) = top (rect p) + py_round (snd (vel p))"
  "width (rect (move_x p)) = width (rect p)"
  "vel (add_gravity p) = (fst (vel p), snd (vel p) + GRAVITY)"
  "rect (add_gravity p) = rect p" "on_ground (add_gravity p) = on_ground p"
  by (simp_all add: move_x_def move_y_def move_def add_gravity_def)

lemma physics_unfold:
  "physics pfs p =
     collide pfs ''y'' (move_y (collide pfs ''x'' (move_x (add_gravity p))))"
  by (simp add: physics_def Let_def)

lemma physics_x_contact:
  "spritecollide (move_x (add_gravity p)) pfs \<noteq> [] \<Longrightarrow> fst (vel (physics pfs p)) = 0"
  by (simp add: physics_unfold collide_y_keeps collide_x_first split: list.splits)

lemma physics_on_ground:
  "on_ground (physics pfs p) \<longleftrightarrow>
     on_ground p \<or> (0 < snd (vel p) + GRAVITY \<and>
       spritecollide (move_y (collide pfs ''x'' (move_x (add_gravity p)))) pfs \<noteq> [])"
  by (simp add: physics_unfold collide_y_on_ground collide_x_keeps)

lemma physics_no_x_contact:
  assumes "spritecollide (move_x (add_gravity p)) pfs = []"
  shows "left (rect (physics pfs p)) = left (rect p) + py_round (fst (vel p))"
    and "fst (vel (physics pfs p)) = fst (vel p)"
    and "0 < snd (vel p) + GRAVITY \<Longrightarrow>
         spritecollide (move_y (move_x (add_gravity p))) pfs \<noteq> [] \<Longrightarrow>
         on_ground (physics pfs p) \<and>
         bottom (rect (physics pfs p)) =
           top (rect (hd (spritecollide (move_y (move_x (add_gravity p))) pfs)))"
proof -
  have x: "collide pfs ''x'' (move_x (add_gravity p)) = move_x (add_gravity p)"
    using assms by (simp add: collide_x_first)
  show "left (rect (physics pfs p)) = left (rect p) + py_round (fst (vel p))"
    by (simp add: physics_unfold x collide_y_keeps)
  show "fst (vel (physics pfs p)) = fst (vel p)"
    by (simp add: physics_unfold x collide_y_keeps)
  assume v: "0 < snd (vel p) + GRAVITY"
    and h: "spritecollide (move_y (move_x (add_gravity p))) pfs \<noteq> []"
  then obtain q qs where q: "spritecollide (move_y (move_x (add_gravity p))) pfs = q # qs"
    by (cases "spritecollide (move_y (move_x (add_gravity p))) pfs") auto
  show "on_ground (physics pfs p) \<and>
         bottom (rect (physics pfs p)) =
           top (rect (hd (spritecollide (move_y (move_x (add_gravity p))) pfs)))"
    using v by (simp add: physics_unfold x collide_y_first q collide_hit_def bottom_def set_bottom_def Let_def)
qed

lemma py_round_sign:
  "0 < v \<Longrightarrow> 0 \<le> py_round v" "v < 0 \<Longrightarrow> py_round v \<le> 0" "py_round 0 = 0"
  by (auto simp: py_round_def Let_def)

lemma colliderect_wide:
  assumes "0 \<le> width a" "0 \<le> width b"
  shows "colliderect a b \<longleftrightarrow>
     width a \<noteq> 0 \<and> height a \<noteq> 0 \<and> width b \<noteq> 0 \<and> height b \<noteq> 0 \<and>
     left a < left b + width b \<and> left b < left a + width a \<and>
     min (top a) (top a + height a) < max (top b) (top b + height b) \<and>
     max (top a) (top a + height a) > min (top b) (top b + height b)"
  using assms by (auto simp: colliderect_def)

text \<open>Colliding rectangles overlap in X, and a rectangle moved along X to another
  overlapping position still collides.\<close>

lemma colliderect_overlap_x:
  assumes "0 \<le> width a" "0 \<le> width b" "colliderect a b"
  shows "left a < left b + width b" "left b < left a + width a"
  using assms by (simp_all add: colliderect_wide)

lemma colliderect_moved:
  assumes "0 \<le> width a" "0 \<le> width b" "colliderect (a\<lparr>left := x\<rparr>) b"
    and "y < left b + width b" "left b < y + width a"
  shows "colliderect (a\<lparr>left := y\<rparr>) b"
  using assms by (simp add: colliderect_wide)

lemma rect_move_x: "rect (move_x p) = (rect p)\<lparr>left := left (rect p) + py_round (fst (vel p))\<rparr>"
  by (simp add: move_x_def move_def)

lemma rect_collide_hit_x:
  "rect (collide_hit ''x'' p h) =
     (if 0 < fst (vel p) then (rect p)\<lparr>left := left (rect h) - width (rect p)\<rparr>
      else if fst (vel p) < 0 then (rect p)\<lparr>left := left (rect h) + width (rect h)\<rparr>
      else rect p)"
  by (simp add: collide_hit_def Let_def set_right_def set_left_def right_def)

lemma same_tile_column:
  fixes a b :: int
  assumes "a mod 48 = 0" "b mod 48 = 0" "x \<le> a" "a < x + d" "x \<le> b" "b < x + d" "d \<le> 48"
  shows "a = b"
  using assms by presburger

lemma collide_x_no_hit:
  assumes "spritecollide (move_x p) pfs = []"
  shows "collide pfs ''x'' (move_x p) = move_x p"
    and "q \<in> set pfs \<Longrightarrow> \<not> colliderect (rect (collide pfs ''x'' (move_x p))) (rect q)"
  using assms by (auto simp: collide_x_first spritecollide_def filter_empty_conv)

lemma collide_x_right:
  assumes w: "0 < width (rect p)" and v: "0 < fst (vel p)"
    and h: "spritecollide (move_x p) pfs = h # hs"
  shows "rect (collide pfs ''x'' (move_x p)) =
           (rect p)\<lparr>left := left (rect h) - width (rect p)\<rparr>"
    and "right (rect (collide pfs ''x'' (move_x p))) = left (rect h)"
    and "0 \<le> width (rect q) \<Longrightarrow> left (rect h) \<le> left (rect q) \<Longrightarrow>
         \<not> colliderect (rect (collide pfs ''x'' (move_x p))) (rect q)"
proof -
  show r: "rect (collide pfs ''x'' (move_x p)) =
             (rect p)\<lparr>left := left (rect h) - width (rect p)\<rparr>"
    using v by (simp add: collide_x_first h rect_collide_hit_x rect_move_x)
  show "right (rect (collide pfs ''x'' (move_x p))) = left (rect h)"
    by (simp add: r right_def)
  assume q: "0 \<le> width (rect q)" "left (rect h) \<le> left (rect q)"
  show "\<not> colliderect (rect (collide pfs ''x'' (move_x p))) (rect q)"
  proof
    assume "colliderect (rect (collide pfs ''x'' (move_x p))) (rect q)"
    then have "colliderect ((rect p)\<lparr>left := left (rect h) - width (rect p)\<rparr>) (rect q)"
      by (simp add: r)
    from colliderect_overlap_x(2) [OF _ q(1) this] w q(2) show False by simp
  qed
qed

lemma collide_x_left:
  assumes w: "0 < width (rect p)" and v: "fst (vel p) < 0"
    and h: "spritecollide (move_x p) pfs = h # hs"
  shows "rect (collide pfs ''x'' (move_x p)) =
           (rect p)\<lparr>left := left (rect h) + width (rect h)\<rparr>"
    and "left (rect (collide pfs ''x'' (move_x p))) = right (rect h)"
    and "0 \<le> width (rect q) \<Longrightarrow> right (rect q) \<le> right (rect h) \<Longrightarrow>
         \<not> colliderect (rect (collide pfs ''x'' (move_x p))) (rect q)"
proof -
  show r: "rect (collide pfs ''x'' (move_x p)) =
             (rect p)\<lparr>left := left (rect h) + width (rect h)\<rparr>"
    using v by (simp add: collide_x_first h rect_collide_hit_x rect_move_x)
  show "left (rect (collide pfs ''x'' (move_x p))) = right (rect h)"
    by (simp add: r right_def)
  assume q: "0 \<le> width (rect q)" "right (rect q) \<le> right (rect h)"
  show "\<not> colliderect (rect (collide pfs ''x'' (move_x p))) (rect q)"
  proof
    assume "colliderect (rect (collide pfs ''x'' (move_x p))) (rect q)"
    then have "colliderect ((rect p)\<lparr>left := left (rect h) + width (rect h)\<rparr>) (rect q)"
      by (simp add: r)
    from colliderect_overlap_x(1) [OF _ q(1) this] w q(2) show False by (simp add: right_def)
  qed
qed

text \<open>
  On the tile grid every hit of a player that started clear lies in the tile column just
  ahead, so resolving against the first hit clears them all, and the way back to the
  starting position is free.
\<close>

lemma collide_x_grid:
  assumes w: "0 < width (rect p)"
    and grid: "\<forall>q\<in>set pfs. width (rect q) = TILE \<and> left (rect q) mod TILE = 0"
    and clear: "\<forall>q\<in>set pfs. \<not> colliderect (rect p) (rect q)"
    and step: "\<bar>py_round (fst (vel p))\<bar> \<le> TILE"
    and q: "q \<in> set pfs"
  shows "\<not> colliderect (rect (collide pfs ''x'' (move_x p))) (rect q)"
proof (cases "spritecollide (move_x p) pfs")
  case Nil
  then show ?thesis using q by (rule collide_x_no_hit(2))
next
  case (Cons h hs)
  define d where "d = py_round (fst (vel p))"
  define lr where "lr = left (rect p)"
  define wr where "wr = width (rect p)"
  define lh where "lh = left (rect h)"
  define lq where "lq = left (rect q)"
  have hin: "h \<in> set (spritecollide (move_x p) pfs)" by (simp add: Cons)
  then have hp: "h \<in> set pfs" and hit: "colliderect (rect (move_x p)) (rect h)"
    by (auto simp: spritecollide_def)
  have wh: "width (rect h) = 48" and gh: "lh mod 48 = 0"
    using grid hp by (auto simp: TILE_def lh_def)
  have wq: "width (rect q) = 48" and gq: "lq mod 48 = 0"
    using grid q by (auto simp: TILE_def lq_def)
  have wp: "0 \<le> width (rect p)" using w by simp
  have wh0: "0 \<le> width (rect h)" and wq0: "0 \<le> width (rect q)" by (simp_all add: wh wq)
  have d48: "\<bar>d\<bar> \<le> 48" using step by (simp add: d_def TILE_def)
  have hit': "colliderect ((rect p)\<lparr>left := lr + d\<rparr>) (rect h)"
    using hit by (simp add: rect_move_x d_def lr_def)
  have mh1: "lr + d < lh + 48" and mh2: "lh < lr + d + wr"
    using colliderect_overlap_x [OF _ wh0 hit'] wp by (simp_all add: lh_def wr_def wh)
  have nh: "\<not> colliderect ((rect p)\<lparr>left := lr\<rparr>) (rect h)"
    using clear hp by (simp add: lr_def)
  have ch: "\<not> (lr < lh + 48 \<and> lh < lr + wr)"
  proof
    assume "lr < lh + 48 \<and> lh < lr + wr"
    then have "colliderect ((rect p)\<lparr>left := lr\<rparr>) (rect h)"
      using colliderect_moved [OF _ wh0 hit', of lr] wp by (simp add: lh_def wr_def wh)
    with nh show False by simp
  qed
  have nq: "\<not> colliderect ((rect p)\<lparr>left := lr\<rparr>) (rect q)"
    using clear q by (simp add: lr_def)
  have cq: "\<not> (lr < lq + 48 \<and> lq < lr + wr)"
    if c: "colliderect ((rect p)\<lparr>left := x\<rparr>) (rect q)" for x
  proof
    assume "lr < lq + 48 \<and> lq < lr + wr"
    then have "colliderect ((rect p)\<lparr>left := lr\<rparr>) (rect q)"
      using colliderect_moved [OF _ wq0 c, of lr] wp by (simp add: lq_def wr_def wq)
    with nq show False by simp
  qed
  consider "0 < fst (vel p)" | "fst (vel p) < 0" | "fst (vel p) = 0" by linarith
  then show ?thesis
  proof cases
    case 1
    then have d0: "0 \<le> d" by (simp add: d_def py_round_sign)
    have r: "rect (collide pfs ''x'' (move_x p)) = (rect p)\<lparr>left := lh - wr\<rparr>"
      using collide_x_right(1) [OF w 1 Cons] by (simp add: lh_def wr_def)
    show ?thesis
    proof
      assume "colliderect (rect (collide pfs ''x'' (move_x p))) (rect q)"
      then have c: "colliderect ((rect p)\<lparr>left := lh - wr\<rparr>) (rect q)" by (simp add: r)
      have b1: "lh - wr < lq + 48" and b2: "lq < lh"
        using colliderect_overlap_x [OF _ wq0 c] wp by (simp_all add: lq_def wr_def wq)
      from ch mh1 d0 have h1: "lr + wr \<le> lh" by linarith
      from cq [OF c] b1 h1 have q1: "lr + wr \<le> lq" by linarith
      from b2 mh2 have q2: "lq < (lr + wr) + d" by linarith
      from mh2 have h2: "lh < (lr + wr) + d" by linarith
      from d48 have "d \<le> 48" by linarith
      from same_tile_column [OF gh gq h1 h2 q1 q2 this] b2 show False by simp
    qed
  next
    case 2
    then have d0: "d \<le> 0" by (simp add: d_def py_round_sign)
    have r: "rect (collide pfs ''x'' (move_x p)) = (rect p)\<lparr>left := lh + 48\<rparr>"
      using collide_x_left(1) [OF w 2 Cons] by (simp add: lh_def wh)
    show ?thesis
    proof
      assume "colliderect (rect (collide pfs ''x'' (move_x p))) (rect q)"
      then have c: "colliderect ((rect p)\<lparr>left := lh + 48\<rparr>) (rect q)" by (simp add: r)
      have b1: "lh < lq" and b2: "lq < lh + 48 + wr"
        using colliderect_overlap_x [OF _ wq0 c] wp by (simp_all add: lq_def wr_def wq)
      from ch mh2 d0 have h1: "lh + 48 \<le> lr" by linarith
      from cq [OF c] b2 h1 have q1: "lq + 48 \<le> lr" by linarith
      have x1: "lr + d - 47 \<le> lh" using mh1 by linarith
      have x2: "lh < (lr + d - 47) + - d" using h1 by linarith
      have x3: "lr + d - 47 \<le> lq" using mh1 b1 by linarith
      have x4: "lq < (lr + d - 47) + - d" using q1 by linarith
      from d48 have "- d \<le> 48" by linarith
      from same_tile_column [OF gh gq x1 x2 x3 x4 this] b1 show False by simp
    qed
  next
    case 3
    then have "d = 0" by (simp add: d_def py_round_sign)
    with ch mh1 mh2 show ?thesis by linarith
  qed
qed

text \<open>
  C1, the claim as stated fails: a player moving right and down towards the top-left corner
  of a tile, from a position left of and above it, is not resolved against the tile's left
  face. The horizontal phase finds no overlap, the horizontal velocity stays 6, and the
  vertical phase puts the player on the tile's top face, grounded.
\<close>

theorem corner_resolved_on_y_face:
  "right (rect corner_player) \<le> left (rect corner_tile) \<and>
   bottom (rect corner_player) \<le> top (rect corner_tile) \<and>
   0 < fst (vel corner_player) \<and> 0 < snd (vel corner_player) \<and>
   colliderect (rect (move_y (move_x (add_gravity corner_player)))) (rect corner_tile) \<and>
   fst (vel (physics [corner_tile] corner_player)) = 6 \<and>
   right (rect (physics [corner_tile] corner_player)) = 40 \<and>
   left (rect corner_tile) = 36 \<and>
   bottom (rect (physics [corner_tile] corner_player)) = top (rect corner_tile) \<and>
   on_ground (physics [corner_tile] corner_player)"
  by code_simp

text \<open>
  C1, amended: the physics step of the player adds gravity, moves horizontally and resolves
  the X axis (zeroing the X velocity on contact) at the old vertical position, only then
  moves vertically and resolves the Y axis; the grounded flag is set only by a Y contact with
  downward velocity. When the rectangle overlaps no platform after the horizontal move, as at
  an exact tile corner approached from above, the X phase changes nothing and a downward Y
  contact puts the player on the top face of the platform.
\<close>

theorem physics_axis_order:
  "physics pfs p = collide pfs ''y'' (move_y (collide pfs ''x'' (move_x (add_gravity p)))) \<and>
   top (rect (collide pfs ''x'' (move_x (add_gravity p)))) = top (rect p) \<and>
   (spritecollide (move_x (add_gravity p)) pfs \<noteq> [] \<longrightarrow> fst (vel (physics pfs p)) = 0) \<and>
   (on_ground (physics pfs p) \<longleftrightarrow>
      on_ground p \<or> (0 < snd (vel p) + GRAVITY \<and>
        spritecollide (move_y (collide pfs ''x'' (move_x (add_gravity p)))) pfs \<noteq> [])) \<and>
   (spritecollide (move_x (add_gravity p)) pfs = [] \<longrightarrow>
      left (rect (physics pfs p)) = left (rect p) + py_round (fst (vel p)) \<and>
      fst (vel (physics pfs p)) = fst (vel p) \<and>
      (0 < snd (vel p) + GRAVITY \<and> spritecollide (move_y (move_x (add_gravity p))) pfs \<noteq> [] \<longrightarrow>
         on_ground (physics pfs p) \<and>
         bottom (rect (physics pfs p)) =
           top (rect (hd (spritecollide (move_y (move_x (add_gravity p))) pfs)))))"
  using physics_unfold [of pfs p] physics_x_contact [of p pfs] physics_on_ground [of pfs p]
    physics_no_x_contact [of p pfs] collide_x_keeps(1) [of pfs "move_x (add_gravity p)"]
  by simp

theorem physics_axis_order_witness:
  "spritecollide (move_x (add_gravity corner_player)) [corner_tile] = [] \<and>
   0 < snd (vel corner_player) + GRAVITY \<and>
   spritecollide (move_y (move_x (add_gravity corner_player))) [corner_tile] \<noteq> [] \<and>
   left (rect (physics [corner_tile] corner_player)) =
     left (rect corner_player) + py_round (fst (vel corner_player)) \<and>
   fst (vel (physics [corner_tile] corner_player)) = fst (vel corner_player) \<and>
   on_ground (physics [corner_tile] corner_player) \<and>
   bottom (rect (physics [corner_tile] corner_player)) =
     top (rect (hd (spritecollide (move_y (move_x (add_gravity corner_player))) [corner_tile])))"
proof -
  have a: "spritecollide (move_x (add_gravity corner_player)) [corner_tile] = []"
    by code_simp
  have b: "0 < snd (vel corner_player) + GRAVITY" by code_simp
  have c: "spritecollide (move_y (move_x (add_gravity corner_player))) [corner_tile] \<noteq> []"
    by code_simp
  show ?thesis
    using physics_axis_order [of "[corner_tile]" corner_player] a b c by blast
qed

text \<open>
  C3, the claim as stated fails: the player starts clear of both platforms and moves right by
  6; the move overlaps both, the position is resolved against the first one only, and the
  player still overlaps the second.
\<close>

theorem collide_x_leaves_overlap:
  "snd (vel c3_player) = 0 \<and>
   \<not> colliderect (rect c3_player) (rect (Platform 103 0 48 48)) \<and>
   \<not> colliderect (rect c3_player) (rect (Platform 101 40 48 48)) \<and>
   spritecollide (move_x c3_player) c3_platforms = c3_platforms \<and>
   right (rect (collide c3_platforms ''x'' (move_x c3_player))) = 103 \<and>
   colliderect (rect (collide c3_platforms ''x'' (move_x c3_player))) (rect (Platform 101 40 48 48))"
  by code_simp

text \<open>
  C3, amended: for every player state whose rectangle has a positive width and every
  platform set whose rectangles have non-negative widths, after the horizontal position
  update and \<open>collide(platforms, 'x')\<close>:
  the X velocity is 0 whenever a platform was contacted;
  with no contact nothing changes and no platform is overlapped;
  a player moving right (\<open>vel.x > 0\<close>) that contacted a platform has its right edge on the
  left edge of the first contacted platform and overlaps no platform of the set, contacted
  or not, whose left edge is at or beyond that edge; a player moving left has its left edge
  on the right edge of the first contacted platform and overlaps no platform whose right
  edge is at or before that edge;
  and when every platform is one tile wide and on the tile grid (left edge a multiple of
  \<open>TILE\<close>, as the level builder places them), the player overlapped no platform before the
  move and the step \<open>round(vel.x)\<close> is at most one tile long, the player overlaps no platform
  at all afterwards.
  Only platforms whose facing edge lies strictly before that of the first contacted one
  can stay overlapped.
\<close>

theorem collide_x_resolves_first:
  assumes "0 < width (rect p)"
      and "\<forall>q\<in>set pfs. 0 \<le> width (rect q)"
  shows "(spritecollide (move_x p) pfs \<noteq> [] \<longrightarrow>
            fst (vel (collide pfs ''x'' (move_x p))) = 0) \<and>
         (spritecollide (move_x p) pfs = [] \<longrightarrow>
            collide pfs ''x'' (move_x p) = move_x p \<and>
            (\<forall>q\<in>set pfs. \<not> colliderect (rect (collide pfs ''x'' (move_x p))) (rect q))) \<and>
         (0 < fst (vel p) \<and> spritecollide (move_x p) pfs \<noteq> [] \<longrightarrow>
            right (rect (collide pfs ''x'' (move_x p))) =
              left (rect (hd (spritecollide (move_x p) pfs))) \<and>
            (\<forall>q\<in>set pfs.
               left (rect (hd (spritecollide (move_x p) pfs))) \<le> left (rect q) \<longrightarrow>
               \<not> colliderect (rect (collide pfs ''x'' (move_x p))) (rect q))) \<and>
         (fst (vel p) < 0 \<and> spritecollide (move_x p) pfs \<noteq> [] \<longrightarrow>
            left (rect (collide pfs ''x'' (move_x p))) =
              right (rect (hd (spritecollide (move_x p) pfs))) \<and>
            (\<forall>q\<in>set pfs.
               right (rect q) \<le> right (rect (hd (spritecollide (move_x p) pfs))) \<longrightarrow>
               \<not> colliderect (rect (collide pfs ''x'' (move_x p))) (rect q))) \<and>
         ((\<forall>q\<in>set pfs. width (rect q) = TILE \<and> left (rect q) mod TILE = 0) \<and>
          (\<forall>q\<in>set pfs. \<not> colliderect (rect p) (rect q)) \<and>
          \<bar>py_round (fst (vel p))\<bar> \<le> TILE \<longrightarrow>
            (\<forall>q\<in>set pfs. \<not> colliderect (rect (collide pfs ''x'' (move_x p))) (rect q)))"
proof (intro conjI impI ballI)
  assume "spritecollide (move_x p) pfs \<noteq> []"
  then show "fst (vel (collide pfs ''x'' (move_x p))) = 0"
    by (simp add: collide_x_first split: list.splits)
next
  assume e: "spritecollide (move_x p) pfs = []"
  then show "collide pfs ''x'' (move_x p) = move_x p"
    by (rule collide_x_no_hit(1))
  fix q assume "q \<in> set pfs"
  with e show "\<not> colliderect (rect (collide pfs ''x'' (move_x p))) (rect q)"
    by (rule collide_x_no_hit(2))
next
  assume a: "0 < fst (vel p) \<and> spritecollide (move_x p) pfs \<noteq> []"
  then obtain h hs where hs: "spritecollide (move_x p) pfs = h # hs"
    by (cases "spritecollide (move_x p) pfs") auto
  from a have v: "0 < fst (vel p)" by simp
  show "right (rect (collide pfs ''x'' (move_x p))) =
          left (rect (hd (spritecollide (move_x p) pfs)))"
    using collide_x_right(2) [OF assms(1) v hs] by (simp add: hs)
  fix q assume "q \<in> set pfs"
    and "left (rect (hd (spritecollide (move_x p) pfs))) \<le> left (rect q)"
  then show "\<not> colliderect (rect (collide pfs ''x'' (move_x p))) (rect q)"
    using collide_x_right(3) [OF assms(1) v hs, of q] assms(2) by (simp add: hs)
next
  assume a: "fst (vel p) < 0 \<and> spritecollide (move_x p) pfs \<noteq> []"
  then obtain h hs where hs: "spritecollide (move_x p) pfs = h # hs"
    by (cases "spritecollide (move_x p) pfs") auto
  from a have v: "fst (vel p) < 0" by simp
  show "left (rect (collide pfs ''x'' (move_x p))) =
          right (rect (hd (spritecollide (move_x p) pfs)))"
    using collide_x_left(2) [OF assms(1) v hs] by (simp add: hs)
  fix q assume "q \<in> set pfs"
    and "right (rect q) \<le> right (rect (hd (spritecollide (move_x p) pfs)))"
  then show "\<not> colliderect (rect (collide pfs ''x'' (move_x p))) (rect q)"
    using collide_x_left(3) [OF assms(1) v hs, of q] assms(2) by (simp add: hs)
next
  fix q
  assume a: "(\<forall>q\<in>set pfs. width (rect q) = TILE \<and> left (rect q) mod TILE = 0) \<and>
             (\<forall>q\<in>set pfs. \<not> colliderect (rect p) (rect q)) \<and>
             \<bar>py_round (fst (vel p))\<bar> \<le> TILE"
    and q: "q \<in> set pfs"
  from a have g: "\<forall>q\<in>set pfs. width (rect q) = TILE \<and> left (rect q) mod TILE = 0"
    and c: "\<forall>q\<in>set pfs. \<not> colliderect (rect p) (rect q)"
    and s: "\<bar>py_round (fst (vel p))\<bar> \<le> TILE"
    by blast+
  show "\<not> colliderect (rect (collide pfs ''x'' (move_x p))) (rect q)"
    using assms(1) g c s q by (rule collide_x_grid)
qed

theorem collide_x_resolves_first_witness:
  "0 < width (rect c3_grid_player) \<and>
   list_all (\<lambda>q. width (rect q) = TILE \<and> left (rect q) mod TILE = 0) c3_grid_platforms \<and>
   list_all (\<lambda>q. \<not> colliderect (rect c3_grid_player) (rect q)) c3_grid_platforms \<and>
   \<bar>py_round (fst (vel c3_grid_player))\<bar> \<le> TILE \<and>
   0 < fst (vel c3_grid_player) \<and>
   spritecollide (move_x c3_grid_player) c3_grid_platforms \<noteq> [] \<and>
   fst (vel (collide c3_grid_platforms ''x'' (move_x c3_grid_player))) = 0 \<and>
   right (rect (collide c3_grid_platforms ''x'' (move_x c3_grid_player))) = 96 \<and>
   list_all (\<lambda>q. \<not> colliderect (rect (collide c3_grid_platforms ''x'' (move_x c3_grid_player)))
                      (rect q)) c3_grid_platforms \<and>
   fst (vel c3_left_player) < 0 \<and>
   spritecollide (move_x c3_left_player) c3_grid_platforms \<noteq> [] \<and>
   left (rect (collide c3_grid_platforms ''x'' (move_x c3_left_player))) = 48 \<and>
   spritecollide (move_x c3_free_player) c3_grid_platforms = [] \<and>
   collide c3_grid_platforms ''x'' (move_x c3_free_player) = move_x c3_free_player"
proof -
  have w: "0 < width (rect c3_grid_player)" "0 < width (rect c3_left_player)"
    "0 < width (rect c3_free_player)" by code_simp+
  have n: "\<forall>q\<in>set c3_grid_platforms. 0 \<le> width (rect q)" by code_simp
  have g: "\<forall>q\<in>set c3_grid_platforms. width (rect q) = TILE \<and> left (rect q) mod TILE = 0"
    by code_simp
  have c: "\<forall>q\<in>set c3_grid_platforms. \<not> colliderect (rect c3_grid_player) (rect q)"
    by code_simp
  have s: "\<bar>py_round (fst (vel c3_grid_player))\<bar> \<le> TILE" by code_simp
  have v: "0 < fst (vel c3_grid_player)" by code_simp
  have h: "spritecollide (move_x c3_grid_player) c3_grid_platforms \<noteq> []" by code_simp
  have e: "left (rect (hd (spritecollide (move_x c3_grid_player) c3_grid_platforms))) = 96"
    by code_simp
  have v': "fst (vel c3_left_player) < 0" by code_simp
  have h': "spritecollide (move_x c3_left_player) c3_grid_platforms \<noteq> []" by code_simp
  have e': "right (rect (hd (spritecollide (move_x c3_left_player) c3_grid_platforms))) = 48"
    by code_simp
  have f: "spritecollide (move_x c3_free_player) c3_grid_platforms = []" by code_simp
  note t = collide_x_resolves_first [OF w(1) n]
  note t' = collide_x_resolves_first [OF w(2) n]
  note t'' = collide_x_resolves_first [OF w(3) n]
  from t h have 1: "fst (vel (collide c3_grid_platforms ''x'' (move_x c3_grid_player))) = 0"
    by blast
  from t v h e have 2: "right (rect (collide c3_grid_platforms ''x'' (move_x c3_grid_player))) = 96"
    by simp
  from t g c s have "\<forall>q\<in>set c3_grid_platforms.
      \<not> colliderect (rect (collide c3_grid_platforms ''x'' (move_x c3_grid_player))) (rect q)"
    by blast
  then have 3: "list_all (\<lambda>q. \<not> colliderect
      (rect (collide c3_grid_platforms ''x'' (move_x c3_grid_player))) (rect q)) c3_grid_platforms"
    by (simp add: list_all_iff)
  from t' v' h' e' have 4: "left (rect (collide c3_grid_platforms ''x'' (move_x c3_left_player))) = 48"
    by simp
  from t'' f have 5: "collide c3_grid_platforms ''x'' (move_x c3_free_player) = move_x c3_free_player"
    by blast
  from g have g': "list_all (\<lambda>q. width (rect q) = TILE \<and> left (rect q) mod TILE = 0)
      c3_grid_platforms" by (simp add: list_all_iff)
  from c have c': "list_all (\<lambda>q. \<not> colliderect (rect c3_grid_player) (rect q)) c3_grid_platforms"
    by (simp add: list_all_iff)
  from w(1) g' c' s v h 1 2 3 v' h' 4 f 5 show ?thesis by blast
qed

section \<open>Enemy behaviour\<close>

lemma foldl_land_hit_keeps:
  "left (rect (foldl land_hit e hs)) = left (rect e) \<and> dir (foldl land_hit e hs) = dir e \<and>
   aggro (foldl land_hit e hs) = aggro e \<and> etype (foldl land_hit e hs) = etype e"
  by (induction hs arbitrary: e) (simp_all add: land_hit_def set_bottom_def)

lemma fall_keeps:
  "left (rect (fall pfs e)) = left (rect e)" "dir (fall pfs e) = dir e"
  "aggro (fall pfs e) = aggro e" "etype (fall pfs e) = etype e"
  by (simp_all add: fall_def Let_def foldl_land_hit_keeps move_def)

lemma enemy_update_chaser:
  "etype e = ''chaser'' \<Longrightarrow>
   fst (enemy_update k pfs pl bs e) = fall pfs (walk pfs pl e)"
  by (simp add: enemy_update_def)

lemma walk_chaser_blocked:
  assumes "etype e = ''chaser''" and "\<not> ground_hit pfs e \<or> wall_hit pfs e"
  shows "walk pfs pl e = e\<lparr>dir := - dir e\<rparr>"
  using assms by (simp add: walk_def)

lemma walk_chaser_free:
  assumes "etype e = ''chaser''" and "ground_hit pfs e" and "\<not> wall_hit pfs e"
  shows "aggro (walk pfs pl e) \<longleftrightarrow> aggro e \<or> \<bar>centerx (rect pl) - centerx (rect e)\<bar> < 400"
    and "aggro (walk pfs pl e) \<Longrightarrow> centerx (rect pl) < centerx (rect e) \<Longrightarrow>
         left (rect (walk pfs pl e)) = left (rect e) - py_round (speed e) \<and> dir (walk pfs pl e) = - 1"
    and "aggro (walk pfs pl e) \<Longrightarrow> \<not> centerx (rect pl) < centerx (rect e) \<Longrightarrow>
         left (rect (walk pfs pl e)) = left (rect e) + py_round (speed e) \<and> dir (walk pfs pl e) = 1"
    and "\<not> aggro (walk pfs pl e) \<Longrightarrow> walk pfs pl e = e"
  using assms by (auto simp: walk_def Let_def move_def split: if_splits)

text \<open>
  C4, the claim as stated fails: a chaser with the aggro flag set stands at the right end of
  a platform, the player is 176 px to its right; the ground probe finds nothing ahead, so the
  update flips the direction away from the player and does not move the enemy. The same
  enemy without the flag does not even set it, though the player is within 400 px.
\<close>

theorem chaser_flip_suppresses_chase:
  "aggro c4_enemy \<and> etype c4_enemy = ''chaser'' \<and>
   \<bar>centerx (rect c4_player) - centerx (rect c4_enemy)\<bar> < 400 \<and>
   centerx (rect c4_enemy) < centerx (rect c4_player) \<and>
   left (rect (fst (enemy_update 0 c4_platforms c4_player [] c4_enemy))) = left (rect c4_enemy) \<and>
   dir (fst (enemy_update 0 c4_platforms c4_player [] c4_enemy)) = - 1 \<and>
   \<not> aggro (fst (enemy_update 0 c4_platforms c4_player [] (c4_enemy\<lparr>aggro := False\<rparr>)))"
  by code_simp

text \<open>
  C4, amended: for every chaser the aggro flag is never cleared by an update. In an update
  where the ground probe hits and the wall probe does not, the flag is set once the player's
  horizontal centre is within 400 px, and while it is set the enemy moves by round(speed)
  towards the player's horizontal centre (to the right when the centres coincide), with its
  direction set to match. In an update where the ground probe misses or the wall probe hits,
  the direction flips and the enemy neither moves horizontally nor changes the flag.
\<close>

theorem chaser_update:
  assumes "etype e = ''chaser''"
  shows "(aggro e \<longrightarrow> aggro (fst (enemy_update k pfs pl bs e))) \<and>
         (ground_hit pfs e \<and> \<not> wall_hit pfs e \<longrightarrow>
            (aggro (fst (enemy_update k pfs pl bs e)) \<longleftrightarrow>
               aggro e \<or> \<bar>centerx (rect pl) - centerx (rect e)\<bar> < 400) \<and>
            (aggro (fst (enemy_update k pfs pl bs e)) \<longrightarrow>
               (if centerx (rect pl) < centerx (rect e)
                then left (rect (fst (enemy_update k pfs pl bs e))) = left (rect e) - py_round (speed e)
                     \<and> dir (fst (enemy_update k pfs pl bs e)) = - 1
                else left (rect (fst (enemy_update k pfs pl bs e))) = left (rect e) + py_round (speed e)
                     \<and> dir (fst (enemy_update k pfs pl bs e)) = 1)) \<and>
            (\<not> aggro (fst (enemy_update k pfs pl bs e)) \<longrightarrow>
               left (rect (fst (enemy_update k pfs pl bs e))) = left (rect e) \<and>
               dir (fst (enemy_update k pfs pl bs e)) = dir e)) \<and>
         (\<not> ground_hit pfs e \<or> wall_hit pfs e \<longrightarrow>
            dir (fst (enemy_update k pfs pl bs e)) = - dir e \<and>
            left (rect (fst (enemy_update k pfs pl bs e))) = left (rect e) \<and>
            aggro (fst (enemy_update k pfs pl bs e)) = aggro e)"
proof -
  have u: "fst (enemy_update k pfs pl bs e) = fall pfs (walk pfs pl e)"
    using assms by (rule enemy_update_chaser)
  have blocked: "\<not> ground_hit pfs e \<or> wall_hit pfs e \<Longrightarrow>
      dir (walk pfs pl e) = - dir e \<and> left (rect (walk pfs pl e)) = left (rect e) \<and>
      aggro (walk pfs pl e) = aggro e"
    using walk_chaser_blocked [OF assms, of pfs pl] by simp
  have keep: "aggro e \<Longrightarrow> aggro (walk pfs pl e)"
    using assms by (auto simp: walk_def Let_def)
  show ?thesis
    using walk_chaser_free [OF assms, of pfs pl] blocked keep
    by (auto simp: u fall_keeps)
qed

theorem chaser_update_witness:
  "etype c4_calm = ''chaser'' \<and> ground_hit c4_floor c4_calm \<and> \<not> wall_hit c4_floor c4_calm \<and>
   \<not> aggro c4_calm \<and> \<bar>centerx (rect c4_player) - centerx (rect c4_calm)\<bar> < 400 \<and>
   aggro (fst (enemy_update 0 c4_floor c4_player [] c4_calm)) \<and>
   left (rect (fst (enemy_update 0 c4_floor c4_player [] c4_calm))) = left (rect c4_calm) + 1 \<and>
   dir (fst (enemy_update 0 c4_floor c4_player [] c4_calm)) = 1"
proof -
  have a: "etype c4_calm = ''chaser''" by code_simp
  have b: "ground_hit c4_floor c4_calm" by code_simp
  have c: "\<not> wall_hit c4_floor c4_calm" by code_simp
  have d: "\<bar>centerx (rect c4_player) - centerx (rect c4_calm)\<bar> < 400" by code_simp
  have e: "\<not> centerx (rect c4_player) < centerx (rect c4_calm)" by code_simp
  have f: "py_round (speed c4_calm) = 1" by code_simp
  have g: "\<not> aggro c4_calm" by code_simp
  show ?thesis
    using chaser_update [OF a, where pfs = c4_floor and k = 0 and pl = c4_player and bs = "[]"]
      a b c d e f g by simp
qed


section \<open>What the stages of a frame leave alone\<close>

lemma respawn_keeps [simp]:
  "lives (respawn pt p) = lives p" "score (respawn pt p) = score p"
  "on_ground (respawn pt p) = on_ground p" "double_jump (respawn pt p) = double_jump p"
  "coyote_timer (respawn pt p) = coyote_timer p" "jump_buffer (respawn pt p) = jump_buffer p"
  "jump_power (respawn pt p) = jump_power p"
  by (simp_all add: respawn_def)

lemma player_step_keeps [simp]:
  "save (player_step inp g) = save g" "highscore (player_step inp g) = highscore g"
  "level_clear_cool (player_step inp g) = level_clear_cool g"
  "level_transition_timer (player_step inp g) = level_transition_timer g"
  "respawn_point (player_step inp g) = respawn_point g"
  "checkpoints (player_step inp g) = checkpoints g"
  "enemies (player_step inp g) = enemies g"
  "collectibles (player_step inp g) = collectibles g"
  "paused (player_step inp g) = paused g" "win (player_step inp g) = win g"
  "level_num (player_step inp g) = level_num g"
  by (simp_all add: player_step_def Let_def split_beta)

lemma bullet_hits_keeps [simp]:
  "save (bullet_hits bs g) = save g" "highscore (bullet_hits bs g) = highscore g"
  "level_clear_cool (bullet_hits bs g) = level_clear_cool g"
  "level_transition_timer (bullet_hits bs g) = level_transition_timer g"
  "respawn_point (bullet_hits bs g) = respawn_point g"
  "checkpoints (bullet_hits bs g) = checkpoints g"
  "collectibles (bullet_hits bs g) = collectibles g"
  "enemy_bullets (bullet_hits bs g) = enemy_bullets g"
  "game_over (bullet_hits bs g) = game_over g"
  "paused (bullet_hits bs g) = paused g" "win (bullet_hits bs g) = win g"
  "level_num (bullet_hits bs g) = level_num g"
  "lives (player (bullet_hits bs g)) = lives (player g)"
  "rect (player (bullet_hits bs g)) = rect (player g)"
  "on_ground (player (bullet_hits bs g)) = on_ground (player g)"
  "double_jump (player (bullet_hits bs g)) = double_jump (player g)"
  "coyote_timer (player (bullet_hits bs g)) = coyote_timer (player g)"
  "jump_buffer (player (bullet_hits bs g)) = jump_buffer (player g)"
  "jump_power (player (bullet_hits bs g)) = jump_power (player g)"
  by (induction bs arbitrary: g; simp split: option.splits)+

lemma enemy_bullet_hits_keeps [simp]:
  "save (enemy_bullet_hits bs g) = save g" "highscore (enemy_bullet_hits bs g) = highscore g"
  "level_clear_cool (enemy_bullet_hits bs g) = level_clear_cool g"
  "level_transition_timer (enemy_bullet_hits bs g) = level_transition_timer g"
  "respawn_point (enemy_bullet_hits bs g) = respawn_point g"
  "checkpoints (enemy_bullet_hits bs g) = checkpoints g"
  "enemies (enemy_bullet_hits bs g) = enemies g"
  "collectibles (enemy_bullet_hits bs g) = collectibles g"
  "paused (enemy_bullet_hits bs g) = paused g" "win (enemy_bullet_hits bs g) = win g"
  "level_num (enemy_bullet_hits bs g) = level_num g"
  "rect (player (enemy_bullet_hits bs g)) = rect (player g)"
  "score (player (enemy_bullet_hits bs g)) = score (player g)"
  "on_ground (player (enemy_bullet_hits bs g)) = on_ground (player g)"
  "double_jump (player (enemy_bullet_hits bs g)) = double_jump (player g)"
  "coyote_timer (player (enemy_bullet_hits bs g)) = coyote_timer (player g)"
  "jump_buffer (player (enemy_bullet_hits bs g)) = jump_buffer (player g)"
  "jump_power (player (enemy_bullet_hits bs g)) = jump_power (player g)"
  by (induction bs arbitrary: g; simp add: Let_def)+

lemma touch_enemy_keeps [simp]:
  "save (touch_enemy g) = save g" "highscore (touch_enemy g) = highscore g"
  "level_clear_cool (touch_enemy g) = level_clear_cool g"
  "level_transition_timer (touch_enemy g) = level_transition_timer g"
  "respawn_point (touch_enemy g) = respawn_point g"
  "checkpoints (touch_enemy g) = checkpoints g"
  "enemies (touch_enemy g) = enemies g"
  "collectibles (touch_enemy g) = collectibles g"
  "paused (touch_enemy g) = paused g" "win (touch_enemy g) = win g"
  "level_num (touch_enemy g) = level_num g"
  "score (player (touch_enemy g)) = score (player g)"
  "on_ground (player (touch_enemy g)) = on_ground (player g)"
  "double_jump (player (touch_enemy g)) = double_jump (player g)"
  "coyote_timer (player (touch_enemy g)) = coyote_timer (player g)"
  "jump_buffer (player (touch_enemy g)) = jump_buffer (player g)"
  "jump_power (player (touch_enemy g)) = jump_power (player g)"
  by (simp_all add: touch_enemy_def Let_def split: option.splits)

lemma collect_keeps [simp]:
  "save (collect cs g) = save g" "highscore (collect cs g) = highscore g"
  "level_clear_cool (collect cs g) = level_clear_cool g"
  "level_transition_timer (collect cs g) = level_transition_timer g"
  "respawn_point (collect cs g) = respawn_point g"
  "checkpoints (collect cs g) = checkpoints g"
  "enemies (collect cs g) = enemies g"
  "game_over (collect cs g) = game_over g"
  "paused (collect cs g) = paused g" "win (collect cs g) = win g"
  "level_num (collect cs g) = level_num g"
  "lives (player (collect cs g)) = lives (player g)"
  "rect (player (collect cs g)) = rect (player g)"
  "on_ground (player (collect cs g)) = on_ground (player g)"
  "double_jump (player (collect cs g)) = double_jump (player g)"
  "coyote_timer (player (collect cs g)) = coyote_timer (player g)"
  "jump_buffer (player (collect cs g)) = jump_buffer (player g)"
  "jump_power (player (collect cs g)) = jump_power (player g)"
  by (induction cs arbitrary: g; simp)+

lemma checkpoint_step_keeps [simp]:
  "save (checkpoint_step g) = save g" "highscore (checkpoint_step g) = highscore g"
  "level_clear_cool (checkpoint_step g) = level_clear_cool g"
  "enemies (checkpoint_step g) = enemies g"
  "collectibles (checkpoint_step g) = collectibles g"
  "game_over (checkpoint_step g) = game_over g"
  "paused (checkpoint_step g) = paused g" "win (checkpoint_step g) = win g"
  "level_num (checkpoint_step g) = level_num g"
  "player (checkpoint_step g) = player g"
  by (simp_all add: checkpoint_step_def split_beta)

lemma level_clear_keeps [simp]:
  "save (level_clear g) = save g" "highscore (level_clear g) = highscore g"
  "enemies (level_clear g) = enemies g"
  "collectibles (level_clear g) = collectibles g"
  "checkpoints (level_clear g) = checkpoints g"
  "respawn_point (level_clear g) = respawn_point g"
  "game_over (level_clear g) = game_over g"
  "paused (level_clear g) = paused g" "win (level_clear g) = win g"
  "level_num (level_clear g) = level_num g"
  "player (level_clear g) = player g"
  by (simp_all add: level_clear_def Let_def)

lemma update_pass_keeps [simp]:
  "save (update_pass inp g) = save g" "highscore (update_pass inp g) = highscore g"
  "level_clear_cool (update_pass inp g) = level_clear_cool g"
  "level_transition_timer (update_pass inp g) = level_transition_timer g"
  "respawn_point (update_pass inp g) = respawn_point g"
  "checkpoints (update_pass inp g) = checkpoints g"
  "collectibles (update_pass inp g) = collectibles g"
  "paused (update_pass inp g) = paused g" "win (update_pass inp g) = win g"
  "level_num (update_pass inp g) = level_num g"
  "player (update_pass inp g) = player (player_step inp g)"
  "game_over (update_pass inp g) = game_over (player_step inp g)"
  by (simp_all add: update_pass_def Let_def split_beta)

lemma interactions_keeps [simp]:
  "save (interactions g) = save g" "highscore (interactions g) = highscore g"
  "level_clear_cool (interactions g) = level_clear_cool g"
  "paused (interactions g) = paused g" "win (interactions g) = win g"
  "level_num (interactions g) = level_num g"
  "on_ground (player (interactions g)) = on_ground (player g)"
  "double_jump (player (interactions g)) = double_jump (player g)"
  "coyote_timer (player (interactions g)) = coyote_timer (player g)"
  "jump_buffer (player (interactions g)) = jump_buffer (player g)"
  "jump_power (player (interactions g)) = jump_power (player g)"
  by (simp_all add: interactions_def Let_def)

lemma simulate_keeps [simp]:
  "save (simulate inp g) = save g" "highscore (simulate inp g) = highscore g"
  "level_clear_cool (simulate inp g) = level_clear_cool g"
  "paused (simulate inp g) = paused g" "win (simulate inp g) = win g"
  "level_num (simulate inp g) = level_num g"
  by (simp_all add: simulate_def)

lemma playing_frame_keeps [simp]:
  "save (playing_frame inp g) = save g" "highscore (playing_frame inp g) = highscore g"
  "paused (playing_frame inp g) = paused g" "win (playing_frame inp g) = win g"
  "level_num (playing_frame inp g) = level_num g"
  "enemies (playing_frame inp g) = enemies (simulate inp g)"
  "collectibles (playing_frame inp g) = collectibles (simulate inp g)"
  "checkpoints (playing_frame inp g) = checkpoints (simulate inp g)"
  "respawn_point (playing_frame inp g) = respawn_point (simulate inp g)"
  "game_over (playing_frame inp g) = game_over (simulate inp g)"
  "player (playing_frame inp g) = player (simulate inp g)"
  "level_clear_cool (playing_frame inp g) = level_clear_cool (level_clear (simulate inp g))"
  "level_transition_timer (playing_frame inp g) = level_transition_timer (level_clear (simulate inp g))"
  by (simp_all add: playing_frame_def Let_def)


section \<open>Checkpoints\<close>

lemma py_int_transition: "py_int (of_int FPS * (9 / 10)) = 54"
  by (simp add: py_int_def FPS_def)

lemma touch_cases:
  "touch r cp st =
     (if colliderect r (rect cp) \<and> \<not> activated cp
      then (cp\<lparr>activated := True\<rparr>, cp_respawn_point cp, 54) else (cp, st))"
  using py_int_transition by (simp add: touch_def activate_def)

lemma touch_all_idle:
  "\<forall>cp\<in>set cps. colliderect r (rect cp) \<longrightarrow> activated cp \<Longrightarrow> touch_all r cps st = (cps, st)"
  by (induction cps arbitrary: st) (auto simp: touch_cases)

lemma touch_all_done:
  "\<forall>cp\<in>set (fst (touch_all r cps st)). colliderect r (rect cp) \<longrightarrow> activated cp"
  by (induction cps arbitrary: st) (auto simp: touch_cases split_beta)

lemma touch_all_one_way:
  "list_all2 (\<lambda>c c'. if activated c then c' = c else c' = c\<lparr>activated := colliderect r (rect c)\<rparr>)
     cps (fst (touch_all r cps st))"
  by (induction cps arbitrary: st) (auto simp: touch_cases split_beta)

lemma checkpoint_step_idle:
  "\<forall>cp\<in>set (checkpoints g). colliderect (rect (player g)) (rect cp) \<longrightarrow> activated cp \<Longrightarrow>
   checkpoint_step g = g"
  by (simp add: checkpoint_step_def touch_all_idle)

lemma checkpoint_step_twice: "checkpoint_step (checkpoint_step g) = checkpoint_step g"
proof (rule checkpoint_step_idle)
  show "\<forall>cp\<in>set (checkpoints (checkpoint_step g)).
          colliderect (rect (player (checkpoint_step g))) (rect cp) \<longrightarrow> activated cp"
    using touch_all_done [of "rect (player g)" "checkpoints g"
        "(respawn_point g, level_transition_timer g)"]
    by (simp add: checkpoint_step_def split_beta)
qed

lemma interactions_checkpoints:
  "checkpoints (interactions g) =
     fst (touch_all (rect (player (interactions g))) (checkpoints g)
            (respawn_point g, level_transition_timer g))"
  "\<forall>cp\<in>set (checkpoints g). activated cp \<Longrightarrow>
     checkpoints (interactions g) = checkpoints g \<and> respawn_point (interactions g) = respawn_point g \<and>
     level_transition_timer (interactions g) = level_transition_timer g"
  by (simp_all add: interactions_def Let_def checkpoint_step_def split_beta touch_all_idle)


text \<open>
  C5: a checkpoint whose \<open>activated\<close> flag is set is left as it is by the checkpoint loop,
  with the respawn point and the transition timer, whether the player overlaps it or not;
  the first overlap of a checkpoint not yet activated sets the flag, the respawn point and
  the countdown of 54 frames in the same iteration. So the checkpoint step of a frame changes
  nothing when every overlapped checkpoint is activated, applying it twice is applying it
  once, a playing frame leaves every activated checkpoint as it is (and sets the flag of the
  others exactly when the player overlaps them), and while all checkpoints are activated the
  frame, up to and including its checkpoint step, changes neither the checkpoints nor the
  respawn point nor the transition timer.
\<close>

theorem checkpoint_activation_idempotent:
  "(activated cp \<longrightarrow> touch r cp st = (cp, st)) \<and>
   (\<not> activated cp \<and> colliderect r (rect cp) \<longrightarrow>
      touch r cp st = (cp\<lparr>activated := True\<rparr>, cp_respawn_point cp, 54)) \<and>
   (\<not> colliderect r (rect cp) \<longrightarrow> touch r cp st = (cp, st)) \<and>
   ((\<forall>c\<in>set (checkpoints g). colliderect (rect (player g)) (rect c) \<longrightarrow> activated c) \<longrightarrow>
      checkpoint_step g = g) \<and>
   checkpoint_step (checkpoint_step g) = checkpoint_step g \<and>
   list_all2 (\<lambda>c c'. if activated c then c' = c
                       else c' = c\<lparr>activated := colliderect (rect (player (simulate inp g))) (rect c)\<rparr>)
     (checkpoints g) (checkpoints (playing_frame inp g)) \<and>
   ((\<forall>c\<in>set (checkpoints g). activated c) \<longrightarrow>
      checkpoints (simulate inp g) = checkpoints g \<and>
      respawn_point (simulate inp g) = respawn_point g \<and>
      level_transition_timer (simulate inp g) = level_transition_timer g)"
proof (intro conjI)
  show "activated cp \<longrightarrow> touch r cp st = (cp, st)"
    by (simp add: touch_cases)
  show "\<not> activated cp \<and> colliderect r (rect cp) \<longrightarrow>
      touch r cp st = (cp\<lparr>activated := True\<rparr>, cp_respawn_point cp, 54)"
    by (simp add: touch_cases)
  show "\<not> colliderect r (rect cp) \<longrightarrow> touch r cp st = (cp, st)"
    by (simp add: touch_cases)
  show "(\<forall>c\<in>set (checkpoints g). colliderect (rect (player g)) (rect c) \<longrightarrow> activated c) \<longrightarrow>
      checkpoint_step g = g"
    using checkpoint_step_idle by blast
  show "checkpoint_step (checkpoint_step g) = checkpoint_step g"
    by (rule checkpoint_step_twice)
  show "list_all2 (\<lambda>c c'. if activated c then c' = c
                       else c' = c\<lparr>activated := colliderect (rect (player (simulate inp g))) (rect c)\<rparr>)
     (checkpoints g) (checkpoints (playing_frame inp g))"
    using touch_all_one_way [where cps = "checkpoints g" and r = "rect (player (simulate inp g))"
        and st = "(respawn_point g, level_transition_timer g)"]
    by (simp add: simulate_def interactions_checkpoints(1) del: touch_all.simps)
  show "(\<forall>c\<in>set (checkpoints g). activated c) \<longrightarrow>
      checkpoints (simulate inp g) = checkpoints g \<and>
      respawn_point (simulate inp g) = respawn_point g \<and>
      level_transition_timer (simulate inp g) = level_transition_timer g"
    using interactions_checkpoints(2) [of "update_pass inp g"] by (simp add: simulate_def)
qed

theorem checkpoint_activation_idempotent_witness:
  "\<not> activated (Checkpoint (Platform 0 96 480 48)) \<and>
   colliderect (rect (player c5_game)) (rect (Checkpoint (Platform 0 96 480 48))) \<and>
   touch (rect (player c5_game)) (Checkpoint (Platform 0 96 480 48)) ((24, 96), 0) =
     ((Checkpoint (Platform 0 96 480 48))\<lparr>activated := True\<rparr>, (240, 68), 54) \<and>
   activated ((Checkpoint (Platform 0 96 480 48))\<lparr>activated := True\<rparr>) \<and>
   touch (rect (player c5_game)) ((Checkpoint (Platform 0 96 480 48))\<lparr>activated := True\<rparr>)
       ((24, 96), 0) =
     ((Checkpoint (Platform 0 96 480 48))\<lparr>activated := True\<rparr>, (24, 96), 0) \<and>
   list_all activated (checkpoints (checkpoint_step c5_game)) \<and>
   respawn_point (simulate idle_input (checkpoint_step c5_game)) = (240, 68) \<and>
   level_transition_timer (simulate idle_input (checkpoint_step c5_game)) = 54 \<and>
   checkpoint_step (checkpoint_step (checkpoint_step c5_game)) = checkpoint_step c5_game"
proof -
  let ?cp = "Checkpoint (Platform 0 96 480 48)"
  let ?r = "rect (player c5_game)"
  let ?g = "checkpoint_step c5_game"
  have a: "\<not> activated ?cp" by code_simp
  have b: "colliderect ?r (rect ?cp)" by code_simp
  have c: "cp_respawn_point ?cp = (240, 68)" by code_simp
  have d: "activated (?cp\<lparr>activated := True\<rparr>)" by simp
  have e: "list_all activated (checkpoints ?g)" by code_simp
  have f: "respawn_point ?g = (240, 68)" "level_transition_timer ?g = 54" by code_simp+
  note t1 = checkpoint_activation_idempotent
    [where cp = ?cp and r = ?r and st = "((24, 96), 0)" and g = ?g and inp = idle_input]
  note t2 = checkpoint_activation_idempotent
    [where cp = "?cp\<lparr>activated := True\<rparr>" and r = ?r and st = "((24, 96), 0)" and g = ?g
       and inp = idle_input]
  from e have e': "\<forall>c\<in>set (checkpoints ?g). activated c" by (simp add: list_all_iff)
  then have e'': "\<forall>c\<in>set (checkpoints ?g). colliderect (rect (player ?g)) (rect c) \<longrightarrow> activated c"
    by blast
  from t1 a b c have 1: "touch ?r ?cp ((24, 96), 0) = (?cp\<lparr>activated := True\<rparr>, (240, 68), 54)"
    by simp
  from t2 d have 2: "touch ?r (?cp\<lparr>activated := True\<rparr>) ((24, 96), 0) =
      (?cp\<lparr>activated := True\<rparr>, (24, 96), 0)" by blast
  from t1 e' f have 3: "respawn_point (simulate idle_input ?g) = (240, 68)"
    "level_transition_timer (simulate idle_input ?g) = 54" by simp_all
  from t1 e'' have 4: "checkpoint_step ?g = ?g" by blast
  then have 5: "checkpoint_step (checkpoint_step ?g) = ?g" by simp
  from a b 1 d 2 e 3 5 show ?thesis by blast
qed


section \<open>The cleared-level countdown\<close>

lemma level_clear_cases:
  "level_clear g =
     (if cleared g \<and> level_transition_timer g = 0 then
        (if 72 \<le> level_clear_cool g
         then g\<lparr>level_clear_cool := 0, level_transition_timer := 54\<rparr>
         else g\<lparr>level_clear_cool := level_clear_cool g + 1\<rparr>)
      else if \<not> cleared g then g\<lparr>level_clear_cool := 0\<rparr> else g)"
  using py_int_transition
  by (auto simp: level_clear_def cleared_def Let_def FPS_def)

lemma cleared_playing_frame [simp]:
  "cleared (playing_frame inp g) = cleared (simulate inp g)"
  by (simp add: cleared_def)

lemma playing_frame_cool:
  "\<not> cleared (playing_frame inp g) \<Longrightarrow> level_clear_cool (playing_frame inp g) = 0"
  "level_clear_cool (playing_frame inp g) \<le> max 0 (level_clear_cool g) + 1"
  by (auto simp: level_clear_cases)

lemma length_playing_frames [simp]: "length (playing_frames inps g) = length inps"
  by (induction inps arbitrary: g) simp_all

lemma playing_frames_snoc:
  "playing_frames (inps @ [inp]) g =
     playing_frames inps g @ [playing_frame inp (last (g # playing_frames inps g))]"
  by (induction inps arbitrary: g) simp_all

text \<open>The counter is bounded by the number of cleared frames that end the run.\<close>

lemma run_cool:
  "level_clear_cool (last (g # playing_frames inps g)) \<le>
     (if list_all cleared (playing_frames inps g) then max 0 (level_clear_cool g) + int (length inps)
      else int (length (takeWhile cleared (rev (playing_frames inps g)))))"
proof (induction inps arbitrary: g)
  case Nil
  show ?case by simp
next
  case (Cons inp inps)
  let ?g1 = "playing_frame inp g"
  let ?rest = "playing_frames inps ?g1"
  note ih = Cons.IH [of ?g1]
  have l: "last (g # playing_frames (inp # inps) g) = last (?g1 # ?rest)" by simp
  consider "cleared ?g1" "list_all cleared ?rest" | "\<not> cleared ?g1" "list_all cleared ?rest"
    | "\<not> list_all cleared ?rest" by blast
  then show ?case
  proof cases
    case 1
    with ih playing_frame_cool(2) [of inp g] show ?thesis
      unfolding l by (simp del: last.simps cleared_playing_frame)
  next
    case 2
    then have "\<And>x. x \<in> set (rev ?rest) \<Longrightarrow> cleared x"
      by (simp add: list_all_iff del: cleared_playing_frame)
    then have "takeWhile cleared (rev ?rest @ [?g1]) = rev ?rest @ takeWhile cleared [?g1]"
      by (rule takeWhile_append2)
    with 2(1) have "takeWhile cleared (rev ?rest @ [?g1]) = rev ?rest"
      by (simp del: cleared_playing_frame)
    with 2 ih playing_frame_cool(1) [of inp g] show ?thesis
      unfolding l by (simp del: last.simps cleared_playing_frame)
  next
    case 3
    then obtain x where "x \<in> set (rev ?rest)" "\<not> cleared x"
      by (auto simp: list_all_iff simp del: cleared_playing_frame)
    then have "takeWhile cleared (rev ?rest @ [?g1]) = takeWhile cleared (rev ?rest)"
      by (rule takeWhile_append1)
    with 3 ih show ?thesis
      unfolding l by (simp del: last.simps cleared_playing_frame)
  qed
qed


lemma run_cool_fresh:
  assumes "level_clear_cool g \<le> 0"
  shows "level_clear_cool (last (g # playing_frames inps g)) \<le>
           int (length (takeWhile cleared (rev (playing_frames inps g))))"
proof (cases "list_all cleared (playing_frames inps g)")
  case True
  then have "\<forall>x\<in>set (rev (playing_frames inps g)). cleared x"
    by (simp add: list_all_iff)
  then have "takeWhile cleared (rev (playing_frames inps g)) = rev (playing_frames inps g)"
    by (simp only: takeWhile_eq_all_conv)
  then have "length (takeWhile cleared (rev (playing_frames inps g))) =
      length (rev (playing_frames inps g))"
    by (simp only:)
  then have "length (takeWhile cleared (rev (playing_frames inps g))) = length inps"
    by (simp only: length_rev length_playing_frames)
  moreover have "level_clear_cool (last (g # playing_frames inps g)) \<le>
      max 0 (level_clear_cool g) + int (length inps)"
    using True run_cool [of g inps] by (simp del: last.simps)
  ultimately show ?thesis using assms by linarith
next
  case False
  with run_cool [of g inps] show ?thesis by (simp del: last.simps)
qed

lemma playing_frame_trigger:
  assumes "level_transition_timer (simulate inp g) = 0"
    and "0 < level_transition_timer (playing_frame inp g)"
  shows "cleared (playing_frame inp g)" "72 \<le> level_clear_cool g"
    "level_transition_timer (playing_frame inp g) = 54"
    "level_clear_cool (playing_frame inp g) = 0"
  using assms by (auto simp: level_clear_cases split: if_splits)

text \<open>
  C8: a playing frame at whose clear check an enemy or a collectible is left sets the clear
  counter to zero. A playing frame whose checkpoint step leaves the transition timer at 0
  ends with a running countdown only if the level is cleared at its check and the counter
  had reached 72 = FPS * 1.2 before, and then the countdown is 54 frames and the counter is
  zero again; below 72 a cleared frame only adds one to the counter. So in a run of
  consecutive playing frames that starts with a counter of zero, the clear check starts the
  countdown only in a frame that ends more than FPS * 1.2 consecutive frames whose checks
  all found the level cleared.
\<close>

theorem level_clear_debounce:
  "(\<not> cleared (playing_frame inp g) \<longrightarrow> level_clear_cool (playing_frame inp g) = 0) \<and>
   (level_transition_timer (simulate inp g) = 0 \<and> 0 < level_transition_timer (playing_frame inp g) \<longrightarrow>
      cleared (playing_frame inp g) \<and> 72 \<le> level_clear_cool g \<and>
      level_transition_timer (playing_frame inp g) = 54 \<and>
      level_clear_cool (playing_frame inp g) = 0) \<and>
   (cleared (playing_frame inp g) \<and> level_transition_timer (simulate inp g) = 0 \<and>
    level_clear_cool g < 72 \<longrightarrow>
      level_clear_cool (playing_frame inp g) = level_clear_cool g + 1 \<and>
      level_transition_timer (playing_frame inp g) = 0) \<and>
   (level_clear_cool g \<le> 0 \<and>
    level_transition_timer (simulate inp (last (g # playing_frames inps g))) = 0 \<and>
    0 < level_transition_timer (last (playing_frames (inps @ [inp]) g)) \<longrightarrow>
      of_int FPS * (12 / 10 :: real) <
        of_nat (length (takeWhile cleared (rev (playing_frames (inps @ [inp]) g)))))"
proof (intro conjI impI)
  assume "\<not> cleared (playing_frame inp g)"
  then show "level_clear_cool (playing_frame inp g) = 0" by (rule playing_frame_cool(1))
next
  assume a: "level_transition_timer (simulate inp g) = 0 \<and>
             0 < level_transition_timer (playing_frame inp g)"
  then have 1: "level_transition_timer (simulate inp g) = 0"
    and 2: "0 < level_transition_timer (playing_frame inp g)" by simp_all
  show "cleared (playing_frame inp g)" using 1 2 by (rule playing_frame_trigger(1))
  show "72 \<le> level_clear_cool g" using 1 2 by (rule playing_frame_trigger(2))
  show "level_transition_timer (playing_frame inp g) = 54" using 1 2 by (rule playing_frame_trigger(3))
  show "level_clear_cool (playing_frame inp g) = 0" using 1 2 by (rule playing_frame_trigger(4))
next
  assume a: "cleared (playing_frame inp g) \<and> level_transition_timer (simulate inp g) = 0 \<and>
             level_clear_cool g < 72"
  then show "level_clear_cool (playing_frame inp g) = level_clear_cool g + 1"
    by (simp add: level_clear_cases)
  from a show "level_transition_timer (playing_frame inp g) = 0"
    by (simp add: level_clear_cases)
next
  let ?g = "last (g # playing_frames inps g)"
  assume a: "level_clear_cool g \<le> 0 \<and>
             level_transition_timer (simulate inp ?g) = 0 \<and>
             0 < level_transition_timer (last (playing_frames (inps @ [inp]) g))"
  then have 0: "level_clear_cool g \<le> 0"
    and 1: "level_transition_timer (simulate inp ?g) = 0"
    and 2: "0 < level_transition_timer (playing_frame inp ?g)"
    by (simp_all add: playing_frames_snoc del: last.simps playing_frame_keeps)
  have c: "cleared (playing_frame inp ?g)" using 1 2 by (rule playing_frame_trigger(1))
  have "72 \<le> level_clear_cool ?g" using 1 2 by (rule playing_frame_trigger(2))
  with run_cool_fresh [OF 0, of inps]
  have "72 \<le> length (takeWhile cleared (rev (playing_frames inps g)))" by linarith
  moreover have "takeWhile cleared (rev (playing_frames (inps @ [inp]) g)) =
      playing_frame inp ?g # takeWhile cleared (rev (playing_frames inps g))"
    using c by (simp add: playing_frames_snoc del: last.simps cleared_playing_frame)
  ultimately show "of_int FPS * (12 / 10 :: real) <
      of_nat (length (takeWhile cleared (rev (playing_frames (inps @ [inp]) g))))"
    by (simp add: FPS_def)
qed

theorem level_clear_debounce_witness:
  "level_clear_cool scene_game \<le> 0 \<and>
   level_transition_timer
     (simulate idle_input (last (scene_game # playing_frames (replicate 72 idle_input) scene_game))) = 0 \<and>
   level_transition_timer
     (last (playing_frames (replicate 72 idle_input @ [idle_input]) scene_game)) = 54 \<and>
   of_int FPS * (12 / 10 :: real) <
     of_nat (length (takeWhile cleared
       (rev (playing_frames (replicate 72 idle_input @ [idle_input]) scene_game))))"
proof -
  have a: "level_clear_cool scene_game \<le> 0" by code_simp
  have b: "level_transition_timer (simulate idle_input
      (last (scene_game # playing_frames (replicate 72 idle_input) scene_game))) = 0"
    by code_simp
  have c: "level_transition_timer
     (last (playing_frames (replicate 72 idle_input @ [idle_input]) scene_game)) = 54"
    by code_simp
  from level_clear_debounce [where g = scene_game and inp = idle_input
      and inps = "replicate 72 idle_input"] a b c
  show ?thesis by simp
qed

end
